theory Spec2Isabelle
  imports Complex_Main "HOL-Library.Multiset"
begin


section \<open>Data model of the seating designer\<close>

text \<open>
  The types of \<^verbatim>\<open>client/src/pages/seating-designer.tsx\<close>. Identifiers are strings and an
  optional field is an \<open>option\<close>. A JavaScript \<^verbatim>\<open>number\<close> is a \<open>real\<close> (table numbers, which
  the number input of the page sets to whatever it holds, coordinates, angles), with
  addition, subtraction, multiplication and division taken exactly; the chair count
  requested of \<^verbatim>\<open>setChairsCount\<close> is an \<open>int\<close>, and indices and lengths are natural numbers.
\<close>

datatype GuestGender = Female | Male

record Guest =
  guest_id :: string
  guest_name :: string
  gender :: GuestGender
  photoUrl :: "string option"

record Chair =
  chair_id :: string
  guestId :: "string option"

datatype TableShape = Round | Rect

datatype TableNumberStyle = Classic | Monogram | Modern

record TableModel =
  table_id :: string
  number :: real
  label :: "string option"
  shape :: TableShape
  numberStyle :: TableNumberStyle
  isVip :: "bool option"
  pos_x :: real
  pos_y :: real
  rotation :: real
  chairs :: "Chair list"

datatype Tool = SelectTool | PanTool

text \<open>
  The React state of the page component that the claims speak about: the guest list,
  the table list, and the view state (selection, stage size as width and height, pan
  offset, tool, snapping).
\<close>

record Plan =
  guests :: "Guest list"
  tables :: "TableModel list"
  selectedTableId :: "string option"
  stageSize :: "real \<times> real"
  pan :: "real \<times> real"
  tool :: Tool
  snapToGrid :: bool

section \<open>Helpers\<close>

definition clamp :: "int \<Rightarrow> int \<Rightarrow> int \<Rightarrow> int" where
  "clamp n lo hi = max lo (min hi n)"

text \<open>\<^verbatim>\<open>String(n)\<close> of a non-negative integer: its decimal digits.\<close>

fun String_of_nat :: "nat \<Rightarrow> string" where
  "String_of_nat n =
     (if n < 10 then [''0123456789'' ! n]
      else String_of_nat (n div 10) @ [''0123456789'' ! (n mod 10)])"

declare String_of_nat.simps [simp del]

text \<open>JavaScript truthiness of an optional string: absent and the empty string are falsy.\<close>

definition truthy :: "string option \<Rightarrow> bool" where
  "truthy v = (case v of None \<Rightarrow> False | Some s \<Rightarrow> s \<noteq> [])"

section \<open>Plan mutators\<close>

text \<open>
  Each mutator is the functional update the source passes to \<^verbatim>\<open>setTables\<close> or
  \<^verbatim>\<open>setGuests\<close>, applied to the state. \<^verbatim>\<open>uid\<close> draws on \<^verbatim>\<open>Math.random\<close> and the clock;
  it is a parameter here: the function from the prefix to the identifier it returns.
\<close>

text \<open>The callback that \<^verbatim>\<open>setChairsCount\<close> maps over the tables.\<close>

definition setChairsCount_table :: "(string \<Rightarrow> string) \<Rightarrow> string \<Rightarrow> int \<Rightarrow> TableModel \<Rightarrow> TableModel" where
  "setChairsCount_table uid tableId cnt t =
     (if table_id t \<noteq> tableId then t
      else
        let next = clamp cnt 2 20; existing = chairs t in
        if int (length existing) = next then t
        else if int (length existing) < next then
          t\<lparr>chairs := existing @
             map (\<lambda>i. \<lparr>chair_id = uid (table_id t @ ''c'' @ String_of_nat (length existing + i + 1)),
                        guestId = None\<rparr>)
               [0 ..< nat (next - int (length existing))]\<rparr>
        else t\<lparr>chairs := take (nat next) existing\<rparr>)"

definition setChairsCount :: "(string \<Rightarrow> string) \<Rightarrow> string \<Rightarrow> int \<Rightarrow> Plan \<Rightarrow> Plan" where
  "setChairsCount uid tableId cnt s =
     s\<lparr>tables := map (setChairsCount_table uid tableId cnt) (tables s)\<rparr>"

text \<open>The callback that \<^verbatim>\<open>assignGuest\<close> maps over the tables.\<close>

definition assignGuest_table :: "string \<Rightarrow> string \<Rightarrow> string option \<Rightarrow> TableModel \<Rightarrow> TableModel" where
  "assignGuest_table tableId chairId gid t =
     (if table_id t \<noteq> tableId then t
      else t\<lparr>chairs := map (\<lambda>c. if chair_id c = chairId then c\<lparr>guestId := gid\<rparr> else c) (chairs t)\<rparr>)"

definition assignGuest :: "string \<Rightarrow> string \<Rightarrow> string option \<Rightarrow> Plan \<Rightarrow> Plan" where
  "assignGuest tableId chairId gid s =
     s\<lparr>tables := map (assignGuest_table tableId chairId gid) (tables s)\<rparr>"

definition unassignGuestEverywhere :: "string \<Rightarrow> Plan \<Rightarrow> Plan" where
  "unassignGuestEverywhere gid s =
     s\<lparr>tables := map (\<lambda>t.
        t\<lparr>chairs := map (\<lambda>c. if guestId c = Some gid then c\<lparr>guestId := None\<rparr> else c) (chairs t)\<rparr>)
        (tables s)\<rparr>"

definition removeGuest :: "string \<Rightarrow> Plan \<Rightarrow> Plan" where
  "removeGuest gid s =
     (let s1 = unassignGuestEverywhere gid s
      in s1\<lparr>guests := filter (\<lambda>g. guest_id g \<noteq> gid) (guests s1)\<rparr>)"

section \<open>Derived views\<close>

text \<open>
  \<^verbatim>\<open>unassignedGuests\<close>: the source collects into a \<^verbatim>\<open>Set\<close> every truthy \<^verbatim>\<open>guestId\<close> of every
  chair of every table, and keeps the guests whose id is not in it.
\<close>

definition assigned :: "TableModel list \<Rightarrow> string set" where
  "assigned ts =
     fold (\<lambda>t acc.
        fold (\<lambda>c acc. case guestId c of
                 None \<Rightarrow> acc
               | Some g \<Rightarrow> if g \<noteq> [] then insert g acc else acc) (chairs t) acc) ts {}"

definition unassignedGuests :: "Plan \<Rightarrow> Guest list" where
  "unassignedGuests s = filter (\<lambda>g. guest_id g \<notin> assigned (tables s)) (guests s)"

definition nextTableNumber :: "Plan \<Rightarrow> real" where
  "nextTableNumber s = fold (\<lambda>t m. max m (number t)) (tables s) 0 + 1"

section \<open>assignGuest on a target that does not exist\<close>

lemma assignGuest_chairs_noop:
  "\<forall>c \<in> set cs. chair_id c \<noteq> chairId \<Longrightarrow>
   map (\<lambda>c. if chair_id c = chairId then c\<lparr>guestId := gid\<rparr> else c) cs = cs"
  by (induction cs) auto

text \<open>
  Claim C9. When no table has the given table id, or no chair of a table with that id
  has the given chair id, \<open>assignGuest\<close> returns the plan it was given: the table
  collection (and everything else) is unchanged, and no error value exists to raise.
\<close>

theorem assignGuest_missing_target_noop:
  assumes "\<forall>t \<in> set (tables s). table_id t = tableId \<longrightarrow> (\<forall>c \<in> set (chairs t). chair_id c \<noteq> chairId)"
  shows "assignGuest tableId chairId gid s = s"
proof -
  have "assignGuest_table tableId chairId gid t = t" if "t \<in> set (tables s)" for t
    using assms that by (simp add: assignGuest_table_def assignGuest_chairs_noop)
  then show ?thesis by (simp add: assignGuest_def map_idI)
qed


section \<open>The initial state of the page\<close>

text \<open>
  \<^verbatim>\<open>defaultGuests\<close> and \<^verbatim>\<open>defaultTables\<close> of the page component, and the state the
  component starts in. The chairs are built as the source builds them, by
  \<^verbatim>\<open>Array.from({ length: n }).map((_, i) => ...)\<close>.
\<close>

definition mkGuest :: "string \<Rightarrow> string \<Rightarrow> GuestGender \<Rightarrow> Guest" where
  "mkGuest i n g = \<lparr>guest_id = i, guest_name = n, gender = g, photoUrl = None\<rparr>"

definition defaultGuests :: "Guest list" where
  "defaultGuests =
     [mkGuest ''g1'' ''Ava Johnson'' Female,
      mkGuest ''g2'' ''Noah Williams'' Male,
      mkGuest ''g3'' ''Sophia Brown'' Female,
      mkGuest ''g4'' ''Liam Jones'' Male,
      mkGuest ''g5'' ''Isabella Davis'' Female,
      mkGuest ''g6'' ''Ethan Miller'' Male,
      mkGuest ''g7'' ''Mia Wilson'' Female,
      mkGuest ''g8'' ''Lucas Moore'' Male,
      mkGuest ''g9'' ''Amelia Taylor'' Female,
      mkGuest ''g10'' ''Benjamin Anderson'' Male]"

definition defaultChairs :: "string \<Rightarrow> nat \<Rightarrow> nat \<Rightarrow> nat \<Rightarrow> Chair list" where
  "defaultChairs tid n k first =
     map (\<lambda>i. \<lparr>chair_id = tid @ ''c'' @ String_of_nat (i + 1),
                guestId = (if i < k then Some (''g'' @ String_of_nat (i + first)) else None)\<rparr>)
       [0 ..< n]"

definition defaultTables :: "TableModel list" where
  "defaultTables =
     [\<lparr>table_id = ''t1'', number = 1, label = None, shape = Round, numberStyle = Classic,
       isVip = Some True, pos_x = 240, pos_y = 210, rotation = 0,
       chairs = defaultChairs ''t1'' 8 4 1\<rparr>,
      \<lparr>table_id = ''t2'', number = 2, label = None, shape = Round, numberStyle = Monogram,
       isVip = Some False, pos_x = 520, pos_y = 260, rotation = 2 / 10,
       chairs = defaultChairs ''t2'' 10 3 5\<rparr>,
      \<lparr>table_id = ''t3'', number = 3, label = None, shape = Rect, numberStyle = Modern,
       isVip = Some False, pos_x = 350, pos_y = 430, rotation = 0,
       chairs = defaultChairs ''t3'' 12 3 8\<rparr>]"

text \<open>
  The initial stage size is \<^verbatim>\<open>calculateStageSize(defaultTables)\<close>, which is 800 by 706
  in a window at least 768 wide; the tool starts as pan, snapping is on.
\<close>

definition defaultPlan :: Plan where
  "defaultPlan =
     \<lparr>guests = defaultGuests, tables = defaultTables, selectedTableId = Some ''t1'',
      stageSize = (800, 706), pan = (0, 0), tool = PanTool, snapToGrid = True\<rparr>"

lemma defaultChairs_t1:
  "defaultChairs ''t1'' 8 4 1 =
     [\<lparr>chair_id = ''t1c1'', guestId = Some ''g1''\<rparr>, \<lparr>chair_id = ''t1c2'', guestId = Some ''g2''\<rparr>,
      \<lparr>chair_id = ''t1c3'', guestId = Some ''g3''\<rparr>, \<lparr>chair_id = ''t1c4'', guestId = Some ''g4''\<rparr>,
      \<lparr>chair_id = ''t1c5'', guestId = None\<rparr>, \<lparr>chair_id = ''t1c6'', guestId = None\<rparr>,
      \<lparr>chair_id = ''t1c7'', guestId = None\<rparr>, \<lparr>chair_id = ''t1c8'', guestId = None\<rparr>]"
  by code_simp

lemma defaultChairs_t2:
  "defaultChairs ''t2'' 10 3 5 =
     [\<lparr>chair_id = ''t2c1'', guestId = Some ''g5''\<rparr>, \<lparr>chair_id = ''t2c2'', guestId = Some ''g6''\<rparr>,
      \<lparr>chair_id = ''t2c3'', guestId = Some ''g7''\<rparr>, \<lparr>chair_id = ''t2c4'', guestId = None\<rparr>,
      \<lparr>chair_id = ''t2c5'', guestId = None\<rparr>, \<lparr>chair_id = ''t2c6'', guestId = None\<rparr>,
      \<lparr>chair_id = ''t2c7'', guestId = None\<rparr>, \<lparr>chair_id = ''t2c8'', guestId = None\<rparr>,
      \<lparr>chair_id = ''t2c9'', guestId = None\<rparr>, \<lparr>chair_id = ''t2c10'', guestId = None\<rparr>]"
  by code_simp

lemma defaultChairs_t3:
  "defaultChairs ''t3'' 12 3 8 =
     [\<lparr>chair_id = ''t3c1'', guestId = Some ''g8''\<rparr>, \<lparr>chair_id = ''t3c2'', guestId = Some ''g9''\<rparr>,
      \<lparr>chair_id = ''t3c3'', guestId = Some ''g10''\<rparr>, \<lparr>chair_id = ''t3c4'', guestId = None\<rparr>,
      \<lparr>chair_id = ''t3c5'', guestId = None\<rparr>, \<lparr>chair_id = ''t3c6'', guestId = None\<rparr>,
      \<lparr>chair_id = ''t3c7'', guestId = None\<rparr>, \<lparr>chair_id = ''t3c8'', guestId = None\<rparr>,
      \<lparr>chair_id = ''t3c9'', guestId = None\<rparr>, \<lparr>chair_id = ''t3c10'', guestId = None\<rparr>,
      \<lparr>chair_id = ''t3c11'', guestId = None\<rparr>, \<lparr>chair_id = ''t3c12'', guestId = None\<rparr>]"
  by code_simp

lemma defaultChairs_t1_Suc:
  "defaultChairs ''t1'' 8 4 (Suc 0) =
     [\<lparr>chair_id = ''t1c1'', guestId = Some ''g1''\<rparr>, \<lparr>chair_id = ''t1c2'', guestId = Some ''g2''\<rparr>,
      \<lparr>chair_id = ''t1c3'', guestId = Some ''g3''\<rparr>, \<lparr>chair_id = ''t1c4'', guestId = Some ''g4''\<rparr>,
      \<lparr>chair_id = ''t1c5'', guestId = None\<rparr>, \<lparr>chair_id = ''t1c6'', guestId = None\<rparr>,
      \<lparr>chair_id = ''t1c7'', guestId = None\<rparr>, \<lparr>chair_id = ''t1c8'', guestId = None\<rparr>]"
  using defaultChairs_t1 by simp

lemmas defaultChairs_simps = defaultChairs_t1 defaultChairs_t1_Suc defaultChairs_t2 defaultChairs_t3

lemmas defaultPlan_simps = defaultPlan_def defaultTables_def defaultGuests_def mkGuest_def defaultChairs_simps

text \<open>
  Witness for claim C9 on the initial state: table \<open>t1\<close> has no chair \<open>t2c1\<close>, and there
  is no table \<open>t9\<close>.
\<close>

theorem assignGuest_missing_target_noop_witness:
  "assignGuest ''t1'' ''t2c1'' (Some ''g9'') defaultPlan = defaultPlan \<and>
   assignGuest ''t9'' ''t1c1'' (Some ''g9'') defaultPlan = defaultPlan"
proof -
  have a: "\<forall>t \<in> set (tables defaultPlan). table_id t = ''t1'' \<longrightarrow> (\<forall>c \<in> set (chairs t). chair_id c \<noteq> ''t2c1'')"
    by (simp add: defaultPlan_simps)
  have b: "\<forall>t \<in> set (tables defaultPlan). table_id t = ''t9'' \<longrightarrow> (\<forall>c \<in> set (chairs t). chair_id c \<noteq> ''t1c1'')"
    by (simp add: defaultPlan_simps)
  show ?thesis
    using assignGuest_missing_target_noop [OF a] assignGuest_missing_target_noop [OF b] by simp
qed

section \<open>Unassigning a guest everywhere\<close>

lemma unassign_chairs_ids:
  "map chair_id (map (\<lambda>c. if guestId c = Some g then c\<lparr>guestId := None\<rparr> else c) cs) = map chair_id cs"
  by (induction cs) auto

lemma unassign_chairs_idem:
  "map (\<lambda>c. if guestId c = Some g then c\<lparr>guestId := None\<rparr> else c)
     (map (\<lambda>c. if guestId c = Some g then c\<lparr>guestId := None\<rparr> else c) cs) =
   map (\<lambda>c. if guestId c = Some g then c\<lparr>guestId := None\<rparr> else c) cs"
  by (induction cs) auto

lemma unassignGuestEverywhere_idem:
  "unassignGuestEverywhere g (unassignGuestEverywhere g s) = unassignGuestEverywhere g s"
  by (simp add: unassignGuestEverywhere_def o_def unassign_chairs_idem)

text \<open>
  Claim C10. \<open>unassignGuestEverywhere g\<close> changes nothing of the plan but the tables;
  the tables keep their number and order, and each table keeps every field other than
  its chairs; the chairs keep their number, order and identities; a chair that referenced
  \<open>g\<close> references nobody afterwards and every other chair keeps its reference; and
  applying the operation a second time changes nothing.
\<close>

theorem unassignGuestEverywhere_frame:
  "(unassignGuestEverywhere g s)\<lparr>tables := tables s\<rparr> = s \<and>
   length (tables (unassignGuestEverywhere g s)) = length (tables s) \<and>
   (\<forall>i < length (tables s).
      (tables (unassignGuestEverywhere g s) ! i)\<lparr>chairs := chairs (tables s ! i)\<rparr> = tables s ! i \<and>
      map chair_id (chairs (tables (unassignGuestEverywhere g s) ! i)) = map chair_id (chairs (tables s ! i)) \<and>
      (\<forall>j < length (chairs (tables s ! i)).
         guestId (chairs (tables (unassignGuestEverywhere g s) ! i) ! j) =
           (if guestId (chairs (tables s ! i) ! j) = Some g then None
            else guestId (chairs (tables s ! i) ! j)))) \<and>
   unassignGuestEverywhere g (unassignGuestEverywhere g s) = unassignGuestEverywhere g s"
proof -
  have frame: "(unassignGuestEverywhere g s)\<lparr>tables := tables s\<rparr> = s"
    by (simp add: unassignGuestEverywhere_def)
  have len: "length (tables (unassignGuestEverywhere g s)) = length (tables s)"
    by (simp add: unassignGuestEverywhere_def)
  have per_table: "\<forall>i < length (tables s).
     (tables (unassignGuestEverywhere g s) ! i)\<lparr>chairs := chairs (tables s ! i)\<rparr> = tables s ! i \<and>
     map chair_id (chairs (tables (unassignGuestEverywhere g s) ! i)) = map chair_id (chairs (tables s ! i)) \<and>
     (\<forall>j < length (chairs (tables s ! i)).
        guestId (chairs (tables (unassignGuestEverywhere g s) ! i) ! j) =
          (if guestId (chairs (tables s ! i) ! j) = Some g then None
           else guestId (chairs (tables s ! i) ! j)))"
    by (simp add: unassignGuestEverywhere_def unassign_chairs_ids)
  show ?thesis
    by (rule conjI [OF frame conjI [OF len conjI [OF per_table unassignGuestEverywhere_idem]]])
qed

text \<open>
  Witness for claim C10 on the initial state, for guest \<open>g2\<close>: table \<open>t1\<close> (index 0) keeps
  its chair identities, its second chair is emptied and its first chair keeps \<open>g1\<close>.
\<close>

theorem unassignGuestEverywhere_frame_witness:
  "map chair_id (chairs (tables (unassignGuestEverywhere ''g2'' defaultPlan) ! 0)) =
     [''t1c1'', ''t1c2'', ''t1c3'', ''t1c4'', ''t1c5'', ''t1c6'', ''t1c7'', ''t1c8''] \<and>
   guestId (chairs (tables (unassignGuestEverywhere ''g2'' defaultPlan) ! 0) ! 1) = None \<and>
   guestId (chairs (tables (unassignGuestEverywhere ''g2'' defaultPlan) ! 0) ! 0) = Some ''g1'' \<and>
   (unassignGuestEverywhere ''g2'' defaultPlan)\<lparr>tables := tables defaultPlan\<rparr> = defaultPlan"
proof -
  have i: "0 < length (tables defaultPlan)"
    by (simp add: defaultPlan_simps)
  have j0: "0 < length (chairs (tables defaultPlan ! 0))" and j1: "1 < length (chairs (tables defaultPlan ! 0))"
    by (simp_all add: defaultPlan_simps)
  note th = unassignGuestEverywhere_frame [where g = "''g2''" and s = defaultPlan]
  from th have fr: "(unassignGuestEverywhere ''g2'' defaultPlan)\<lparr>tables := tables defaultPlan\<rparr> = defaultPlan"
    by blast
  from th i have ids: "map chair_id (chairs (tables (unassignGuestEverywhere ''g2'' defaultPlan) ! 0)) =
      map chair_id (chairs (tables defaultPlan ! 0))"
    by blast
  from th i j0 have g0: "guestId (chairs (tables (unassignGuestEverywhere ''g2'' defaultPlan) ! 0) ! 0) =
      (if guestId (chairs (tables defaultPlan ! 0) ! 0) = Some ''g2'' then None
       else guestId (chairs (tables defaultPlan ! 0) ! 0))"
    by blast
  from th i j1 have g1: "guestId (chairs (tables (unassignGuestEverywhere ''g2'' defaultPlan) ! 0) ! 1) =
      (if guestId (chairs (tables defaultPlan ! 0) ! 1) = Some ''g2'' then None
       else guestId (chairs (tables defaultPlan ! 0) ! 1))"
    by blast
  have c0: "chairs (tables defaultPlan ! 0) = defaultChairs ''t1'' 8 4 1"
    by (simp add: defaultPlan_def defaultTables_def)
  show ?thesis
    unfolding ids g0 g1 c0 defaultChairs_t1 using fr by simp
qed

section \<open>Removing a guest\<close>

lemma unassign_chair_not:
  "guestId (if guestId c = Some g then c\<lparr>guestId := None\<rparr> else c) \<noteq> Some g"
  by simp

lemma unassign_chairs_none_left:
  "\<forall>c \<in> set (map (\<lambda>c. if guestId c = Some g then c\<lparr>guestId := None\<rparr> else c) cs). guestId c \<noteq> Some g"
  unfolding set_map ball_simps by (intro ballI unassign_chair_not)

lemma removeGuest_tables:
  "tables (removeGuest g s) = tables (unassignGuestEverywhere g s)"
  by (simp add: removeGuest_def Let_def)

lemma removeGuest_guests:
  "guests (removeGuest g s) = filter (\<lambda>x. guest_id x \<noteq> g) (guests s)"
  by (simp add: removeGuest_def Let_def unassignGuestEverywhere_def)

text \<open>
  Claim C4. \<open>removeGuest g\<close> deletes from the guest list the guests whose id is \<open>g\<close> and
  keeps every other guest, in order; afterwards no chair of any table references \<open>g\<close>;
  the tables keep their number and order and every field other than their chairs, the
  chairs keep their identities, and a chair that referenced another guest (or nobody)
  keeps its reference. This holds in every plan state, so also in those where \<open>g\<close> is
  seated.
\<close>

theorem removeGuest_clears_and_deletes:
  "guests (removeGuest g s) = filter (\<lambda>x. guest_id x \<noteq> g) (guests s) \<and>
   g \<notin> guest_id ` set (guests (removeGuest g s)) \<and>
   (\<forall>x \<in> set (guests s). guest_id x \<noteq> g \<longrightarrow> x \<in> set (guests (removeGuest g s))) \<and>
   (\<forall>t \<in> set (tables (removeGuest g s)). \<forall>c \<in> set (chairs t). guestId c \<noteq> Some g) \<and>
   length (tables (removeGuest g s)) = length (tables s) \<and>
   (\<forall>i < length (tables s).
      (tables (removeGuest g s) ! i)\<lparr>chairs := chairs (tables s ! i)\<rparr> = tables s ! i \<and>
      map chair_id (chairs (tables (removeGuest g s) ! i)) = map chair_id (chairs (tables s ! i)) \<and>
      (\<forall>j < length (chairs (tables s ! i)).
         guestId (chairs (tables (removeGuest g s) ! i) ! j) =
           (if guestId (chairs (tables s ! i) ! j) = Some g then None
            else guestId (chairs (tables s ! i) ! j))))"
proof -
  have gs: "guests (removeGuest g s) = filter (\<lambda>x. guest_id x \<noteq> g) (guests s)"
    by (rule removeGuest_guests)
  have gone: "g \<notin> guest_id ` set (guests (removeGuest g s))"
    by (auto simp: gs)
  have kept: "\<forall>x \<in> set (guests s). guest_id x \<noteq> g \<longrightarrow> x \<in> set (guests (removeGuest g s))"
    by (simp add: gs)
  have cleared: "\<forall>t \<in> set (tables (removeGuest g s)). \<forall>c \<in> set (chairs t). guestId c \<noteq> Some g"
  proof
    fix t assume "t \<in> set (tables (removeGuest g s))"
    then obtain t0 where
      "t = t0\<lparr>chairs := map (\<lambda>c. if guestId c = Some g then c\<lparr>guestId := None\<rparr> else c) (chairs t0)\<rparr>"
      by (auto simp: removeGuest_tables unassignGuestEverywhere_def)
    then have
      "chairs t = map (\<lambda>c. if guestId c = Some g then c\<lparr>guestId := None\<rparr> else c) (chairs t0)"
      by simp
    then show "\<forall>c \<in> set (chairs t). guestId c \<noteq> Some g"
      using unassign_chairs_none_left [of g "chairs t0"] by (simp only:)
  qed
  have len: "length (tables (removeGuest g s)) = length (tables s)"
    by (simp add: removeGuest_tables unassignGuestEverywhere_def)
  have per_table: "\<forall>i < length (tables s).
     (tables (removeGuest g s) ! i)\<lparr>chairs := chairs (tables s ! i)\<rparr> = tables s ! i \<and>
     map chair_id (chairs (tables (removeGuest g s) ! i)) = map chair_id (chairs (tables s ! i)) \<and>
     (\<forall>j < length (chairs (tables s ! i)).
        guestId (chairs (tables (removeGuest g s) ! i) ! j) =
          (if guestId (chairs (tables s ! i) ! j) = Some g then None
           else guestId (chairs (tables s ! i) ! j)))"
    by (simp add: removeGuest_tables unassignGuestEverywhere_def unassign_chairs_ids)
  show ?thesis
    by (rule conjI [OF gs conjI [OF gone conjI [OF kept conjI [OF cleared conjI [OF len per_table]]]]])
qed



text \<open>
  Witness for claim C4 on the initial state, where guest \<open>g2\<close> sits on the second chair
  of table \<open>t1\<close>: the guest leaves the list, the chair is emptied, the first chair
  keeps \<open>g1\<close>.
\<close>

theorem removeGuest_clears_and_deletes_witness:
  "map guest_id (guests (removeGuest ''g2'' defaultPlan)) =
     [''g1'', ''g3'', ''g4'', ''g5'', ''g6'', ''g7'', ''g8'', ''g9'', ''g10''] \<and>
   guestId (chairs (tables defaultPlan ! 0) ! 1) = Some ''g2'' \<and>
   guestId (chairs (tables (removeGuest ''g2'' defaultPlan) ! 0) ! 1) = None \<and>
   guestId (chairs (tables (removeGuest ''g2'' defaultPlan) ! 0) ! 0) = Some ''g1''"
proof -
  have i: "0 < length (tables defaultPlan)"
    by (simp add: defaultPlan_simps)
  have j0: "0 < length (chairs (tables defaultPlan ! 0))" and j1: "1 < length (chairs (tables defaultPlan ! 0))"
    by (simp_all add: defaultPlan_simps)
  note th = removeGuest_clears_and_deletes [where g = "''g2''" and s = defaultPlan]
  from th have gs: "guests (removeGuest ''g2'' defaultPlan) = filter (\<lambda>x. guest_id x \<noteq> ''g2'') (guests defaultPlan)"
    by (rule conjunct1)
  from th i j0 have g0: "guestId (chairs (tables (removeGuest ''g2'' defaultPlan) ! 0) ! 0) =
      (if guestId (chairs (tables defaultPlan ! 0) ! 0) = Some ''g2'' then None
       else guestId (chairs (tables defaultPlan ! 0) ! 0))"
    by blast
  from th i j1 have g1: "guestId (chairs (tables (removeGuest ''g2'' defaultPlan) ! 0) ! 1) =
      (if guestId (chairs (tables defaultPlan ! 0) ! 1) = Some ''g2'' then None
       else guestId (chairs (tables defaultPlan ! 0) ! 1))"
    by blast
  have c0: "chairs (tables defaultPlan ! 0) = defaultChairs ''t1'' 8 4 1"
    by (simp add: defaultPlan_def defaultTables_def)
  have gl: "map guest_id (filter (\<lambda>x. guest_id x \<noteq> ''g2'') (guests defaultPlan)) =
     [''g1'', ''g3'', ''g4'', ''g5'', ''g6'', ''g7'', ''g8'', ''g9'', ''g10'']"
    by (simp add: defaultPlan_def defaultGuests_def mkGuest_def)
  show ?thesis
    unfolding gs g0 g1 c0 defaultChairs_t1 gl by simp
qed

section \<open>Chair count\<close>

lemma clamp_2_20_bounds: "2 \<le> clamp n 2 20 \<and> clamp n 2 20 \<le> 20"
  by (simp add: clamp_def)

lemma setChairsCount_table_other:
  "table_id t \<noteq> tableId \<Longrightarrow> setChairsCount_table uid tableId n t = t"
  by (simp add: setChairsCount_table_def)

lemma setChairsCount_table_length:
  "table_id t = tableId \<Longrightarrow>
   int (length (chairs (setChairsCount_table uid tableId n t))) = clamp n 2 20"
  using clamp_2_20_bounds [of n]
  by (simp add: setChairsCount_table_def Let_def)

lemma setChairsCount_table_fields:
  "(setChairsCount_table uid tableId n t)\<lparr>chairs := chairs t\<rparr> = t"
  by (simp add: setChairsCount_table_def Let_def)

text \<open>
  Claim C2. After \<open>setChairsCount uid tableId n\<close>, for every integer \<open>n\<close>, every table
  whose id is \<open>tableId\<close> has exactly \<open>clamp n 2 20\<close> chairs, which lies between 2 and 20;
  every other table is unchanged; the tables keep their number and order and nothing
  else of the plan changes. A request of \<open>-5\<close> is clamped to 2 and one of 999 to 20.
\<close>

theorem setChairsCount_length_clamped:
  "(setChairsCount uid tableId n s)\<lparr>tables := tables s\<rparr> = s \<and>
   length (tables (setChairsCount uid tableId n s)) = length (tables s) \<and>
   (\<forall>i < length (tables s).
      (table_id (tables s ! i) = tableId \<longrightarrow>
         int (length (chairs (tables (setChairsCount uid tableId n s) ! i))) = clamp n 2 20 \<and>
         2 \<le> length (chairs (tables (setChairsCount uid tableId n s) ! i)) \<and>
         length (chairs (tables (setChairsCount uid tableId n s) ! i)) \<le> 20) \<and>
      (table_id (tables s ! i) \<noteq> tableId \<longrightarrow>
         tables (setChairsCount uid tableId n s) ! i = tables s ! i)) \<and>
   clamp (- 5) 2 20 = 2 \<and> clamp 999 2 20 = 20"
proof -
  have frame: "(setChairsCount uid tableId n s)\<lparr>tables := tables s\<rparr> = s"
    by (simp add: setChairsCount_def)
  have len: "length (tables (setChairsCount uid tableId n s)) = length (tables s)"
    by (simp add: setChairsCount_def)
  have per_table: "\<forall>i < length (tables s).
      (table_id (tables s ! i) = tableId \<longrightarrow>
         int (length (chairs (tables (setChairsCount uid tableId n s) ! i))) = clamp n 2 20 \<and>
         2 \<le> length (chairs (tables (setChairsCount uid tableId n s) ! i)) \<and>
         length (chairs (tables (setChairsCount uid tableId n s) ! i)) \<le> 20) \<and>
      (table_id (tables s ! i) \<noteq> tableId \<longrightarrow>
         tables (setChairsCount uid tableId n s) ! i = tables s ! i)"
  proof (intro allI impI conjI)
    fix i assume i: "i < length (tables s)" and t: "table_id (tables s ! i) = tableId"
    have nth: "tables (setChairsCount uid tableId n s) ! i = setChairsCount_table uid tableId n (tables s ! i)"
      using i by (simp add: setChairsCount_def)
    show l: "int (length (chairs (tables (setChairsCount uid tableId n s) ! i))) = clamp n 2 20"
      unfolding nth using t by (rule setChairsCount_table_length)
    show "2 \<le> length (chairs (tables (setChairsCount uid tableId n s) ! i))"
      using l clamp_2_20_bounds [of n] by linarith
    show "length (chairs (tables (setChairsCount uid tableId n s) ! i)) \<le> 20"
      using l clamp_2_20_bounds [of n] by linarith
  next
    fix i assume i: "i < length (tables s)" and t: "table_id (tables s ! i) \<noteq> tableId"
    show "tables (setChairsCount uid tableId n s) ! i = tables s ! i"
      using i t by (simp add: setChairsCount_def setChairsCount_table_other)
  qed
  have ex: "clamp (- 5) 2 20 = 2 \<and> clamp 999 2 20 = 20"
    by (simp add: clamp_def)
  show ?thesis
    by (rule conjI [OF frame conjI [OF len conjI [OF per_table ex]]])
qed

text \<open>
  One possible outcome of \<^verbatim>\<open>uid\<close>, for the concrete runs below: the prefix, then a fixed
  hexadecimal fraction and a fixed hexadecimal time stamp.
\<close>

definition sample_uid :: "string \<Rightarrow> string" where
  "sample_uid prefix = prefix @ ''_8f3a1c_19a2b3c4d5e''"

text \<open>
  Witness for claim C2 on the initial state: table \<open>t1\<close> (index 0, eight chairs) asked
  for \<open>-5\<close> chairs ends with 2 and asked for 999 ends with 20, while table \<open>t2\<close>
  (index 1) stays as it was.
\<close>

theorem setChairsCount_length_clamped_witness:
  "length (chairs (tables (setChairsCount sample_uid ''t1'' (- 5) defaultPlan) ! 0)) = 2 \<and>
   length (chairs (tables (setChairsCount sample_uid ''t1'' 999 defaultPlan) ! 0)) = 20 \<and>
   tables (setChairsCount sample_uid ''t1'' 999 defaultPlan) ! 1 = tables defaultPlan ! 1"
proof -
  have i0: "0 < length (tables defaultPlan)" and i1: "1 < length (tables defaultPlan)"
    by (simp_all add: defaultPlan_def defaultTables_def)
  have t0: "table_id (tables defaultPlan ! 0) = ''t1''" and t1: "table_id (tables defaultPlan ! 1) \<noteq> ''t1''"
    by (simp_all add: defaultPlan_def defaultTables_def)
  from setChairsCount_length_clamped [where uid = sample_uid and tableId = "''t1''" and n = "- 5" and s = defaultPlan] i0 t0
  have a: "int (length (chairs (tables (setChairsCount sample_uid ''t1'' (- 5) defaultPlan) ! 0))) = clamp (- 5) 2 20"
    by blast
  from setChairsCount_length_clamped [where uid = sample_uid and tableId = "''t1''" and n = 999 and s = defaultPlan] i0 t0
  have b: "int (length (chairs (tables (setChairsCount sample_uid ''t1'' 999 defaultPlan) ! 0))) = clamp 999 2 20"
    by blast
  from setChairsCount_length_clamped [where uid = sample_uid and tableId = "''t1''" and n = 999 and s = defaultPlan] i1 t1
  have c: "tables (setChairsCount sample_uid ''t1'' 999 defaultPlan) ! 1 = tables defaultPlan ! 1"
    by blast
  from a b c show ?thesis by (simp add: clamp_def)
qed

section \<open>Adding, duplicating and deleting tables\<close>

text \<open>\<^verbatim>\<open>snap\<close>: \<^verbatim>\<open>Math.round\<close> rounds to the nearest integer, halves upwards; the grid is 24.\<close>

definition snap :: "Plan \<Rightarrow> real \<Rightarrow> real" where
  "snap s n = (if \<not> snapToGrid s then n else of_int \<lfloor>n / 24 + 1 / 2\<rfloor> * 24)"

definition addTable :: "(string \<Rightarrow> string) \<Rightarrow> TableShape \<Rightarrow> Plan \<Rightarrow> Plan" where
  "addTable uid sh s =
     (let nid = uid ''t'';
          base = \<lparr>table_id = nid, number = nextTableNumber s, label = None, shape = sh,
                  numberStyle = (if sh = Rect then Modern else Classic), isVip = Some False,
                  pos_x = snap s (fst (stageSize s) * (1 / 2) - fst (pan s)),
                  pos_y = snap s (snd (stageSize s) * (1 / 2) - snd (pan s)),
                  rotation = 0,
                  chairs = map (\<lambda>i. \<lparr>chair_id = nid @ ''c'' @ String_of_nat (i + 1), guestId = None\<rparr>)
                             [0 ..< (if sh = Rect then 12 else 8)]\<rparr>
      in s\<lparr>tables := tables s @ [base], selectedTableId := Some nid\<rparr>)"

definition duplicateTable :: "(string \<Rightarrow> string) \<Rightarrow> string \<Rightarrow> Plan \<Rightarrow> Plan" where
  "duplicateTable uid tableId s =
     (case find (\<lambda>x. table_id x = tableId) (tables s) of
        None \<Rightarrow> s
      | Some t \<Rightarrow>
          let nid = uid ''t'';
              copied = t\<lparr>table_id := nid, number := nextTableNumber s,
                         isVip := Some (case isVip t of None \<Rightarrow> False | Some b \<Rightarrow> b),
                         pos_x := snap s (pos_x t + 40), pos_y := snap s (pos_y t + 40),
                         chairs := map (\<lambda>(i, c). \<lparr>chair_id = nid @ ''c'' @ String_of_nat (i + 1),
                                                  guestId = guestId c\<rparr>)
                                     (enumerate 0 (chairs t))\<rparr>
          in s\<lparr>tables := tables s @ [copied], selectedTableId := Some nid\<rparr>)"

definition deleteTable :: "string \<Rightarrow> Plan \<Rightarrow> Plan" where
  "deleteTable tableId s =
     s\<lparr>tables := filter (\<lambda>t. table_id t \<noteq> tableId) (tables s),
       selectedTableId := (if selectedTableId s = Some tableId then None else selectedTableId s)\<rparr>"

section \<open>Seats of a guest, and the unassigned pool\<close>

text \<open>The number of chairs, over all tables, that reference guest id \<open>g\<close>.\<close>

definition seatCount :: "string \<Rightarrow> TableModel list \<Rightarrow> nat" where
  "seatCount g ts = (\<Sum>t\<leftarrow>ts. length (filter (\<lambda>c. guestId c = Some g) (chairs t)))"

lemma assigned_chairs_fold:
  "fold (\<lambda>c acc. case guestId c of None \<Rightarrow> acc
                 | Some g \<Rightarrow> if g \<noteq> [] then insert g acc else acc) cs A =
   A \<union> {g. g \<noteq> [] \<and> (\<exists>c \<in> set cs. guestId c = Some g)}"
  by (induction cs arbitrary: A) (auto split: option.splits)

lemma assigned_tables_fold:
  "fold (\<lambda>t acc. fold (\<lambda>c acc. case guestId c of None \<Rightarrow> acc
                 | Some g \<Rightarrow> if g \<noteq> [] then insert g acc else acc) (chairs t) acc) ts A =
   A \<union> {g. g \<noteq> [] \<and> (\<exists>t \<in> set ts. \<exists>c \<in> set (chairs t). guestId c = Some g)}"
proof (induction ts arbitrary: A)
  case Nil
  then show ?case by simp
next
  case (Cons t ts)
  have "fold (\<lambda>t acc. fold (\<lambda>c acc. case guestId c of None \<Rightarrow> acc
                 | Some g \<Rightarrow> if g \<noteq> [] then insert g acc else acc) (chairs t) acc) (t # ts) A =
        fold (\<lambda>c acc. case guestId c of None \<Rightarrow> acc
                 | Some g \<Rightarrow> if g \<noteq> [] then insert g acc else acc) (chairs t) A \<union>
        {g. g \<noteq> [] \<and> (\<exists>t \<in> set ts. \<exists>c \<in> set (chairs t). guestId c = Some g)}"
    unfolding fold_simps Cons.IH ..
  then show ?case
    unfolding assigned_chairs_fold by auto
qed

lemma assigned_iff:
  "g \<in> assigned ts \<longleftrightarrow> g \<noteq> [] \<and> (\<exists>t \<in> set ts. \<exists>c \<in> set (chairs t). guestId c = Some g)"
  unfolding assigned_def assigned_tables_fold by simp

lemma seatCount_zero_iff:
  "seatCount g ts = 0 \<longleftrightarrow> (\<forall>t \<in> set ts. \<forall>c \<in> set (chairs t). guestId c \<noteq> Some g)"
  by (induction ts) (auto simp: seatCount_def filter_empty_conv)

lemma assigned_seatCount:
  "g \<in> assigned ts \<longleftrightarrow> g \<noteq> [] \<and> 0 < seatCount g ts"
  using seatCount_zero_iff [of g ts] by (auto simp: assigned_iff)

section \<open>Shrinking a table\<close>

text \<open>
  The chairs that \<open>setChairsCount\<close> drops: of every table with the targeted id, those
  from position \<open>clamp n 2 20\<close> on (none when the table grows or stays).
\<close>

definition removedChairs :: "string \<Rightarrow> int \<Rightarrow> TableModel list \<Rightarrow> Chair list" where
  "removedChairs tableId n ts =
     concat (map (\<lambda>t. if table_id t = tableId then drop (nat (clamp n 2 20)) (chairs t) else []) ts)"

lemma filter_take_drop_length:
  "length (filter P (take k xs)) + length (filter P (drop k xs)) = length (filter P xs)"
  by (metis append_take_drop_id filter_append length_append)

lemma setChairsCount_table_count:
  "length (filter (\<lambda>c. guestId c = Some g) (chairs (setChairsCount_table uid tableId n t))) +
   length (filter (\<lambda>c. guestId c = Some g)
      (if table_id t = tableId then drop (nat (clamp n 2 20)) (chairs t) else [])) =
   length (filter (\<lambda>c. guestId c = Some g) (chairs t))"
proof (cases "table_id t = tableId")
  case False
  then show ?thesis by (simp add: setChairsCount_table_def)
next
  case True
  consider (same) "int (length (chairs t)) = clamp n 2 20"
    | (grow) "int (length (chairs t)) < clamp n 2 20"
    | (shrink) "clamp n 2 20 < int (length (chairs t))"
    by linarith
  then show ?thesis
  proof cases
    case same
    then show ?thesis using True by (simp add: setChairsCount_table_def)
  next
    case grow
    then show ?thesis using True by (simp add: setChairsCount_table_def Let_def filter_empty_conv o_def)
  next
    case shrink
    then show ?thesis using True
      by (simp add: setChairsCount_table_def Let_def filter_take_drop_length)
  qed
qed

lemma setChairsCount_count:
  "seatCount g (map (setChairsCount_table uid tableId n) ts) +
   length (filter (\<lambda>c. guestId c = Some g) (removedChairs tableId n ts)) = seatCount g ts"
proof (induction ts)
  case Nil
  then show ?case by (simp add: seatCount_def removedChairs_def)
next
  case (Cons t ts)
  have "seatCount g (map (setChairsCount_table uid tableId n) (t # ts)) +
        length (filter (\<lambda>c. guestId c = Some g) (removedChairs tableId n (t # ts))) =
        (length (filter (\<lambda>c. guestId c = Some g) (chairs (setChairsCount_table uid tableId n t))) +
         length (filter (\<lambda>c. guestId c = Some g)
           (if table_id t = tableId then drop (nat (clamp n 2 20)) (chairs t) else []))) +
        (seatCount g (map (setChairsCount_table uid tableId n) ts) +
         length (filter (\<lambda>c. guestId c = Some g) (removedChairs tableId n ts)))"
    by (simp add: seatCount_def removedChairs_def)
  also have "\<dots> = length (filter (\<lambda>c. guestId c = Some g) (chairs t)) + seatCount g ts"
    unfolding setChairsCount_table_count Cons.IH ..
  also have "\<dots> = seatCount g (t # ts)"
    by (simp add: seatCount_def)
  finally show ?case .
qed

lemma removed_holds_pos:
  "Some g \<in> guestId ` set cs \<longleftrightarrow> 0 < length (filter (\<lambda>c. guestId c = Some g) cs)"
  by (induction cs) auto

lemma setChairsCount_guests:
  "guests (setChairsCount uid tableId n s) = guests s"
  by (simp add: setChairsCount_def)

lemma setChairsCount_tables:
  "tables (setChairsCount uid tableId n s) = map (setChairsCount_table uid tableId n) (tables s)"
  by (simp add: setChairsCount_def)

lemma setChairsCount_table_shrink:
  "table_id t = tableId \<Longrightarrow> clamp n 2 20 < int (length (chairs t)) \<Longrightarrow>
   chairs (setChairsCount_table uid tableId n t) = take (nat (clamp n 2 20)) (chairs t)"
  by (simp add: setChairsCount_table_def Let_def)

lemma unassigned_iff:
  "g \<in> set (unassignedGuests s) \<longleftrightarrow>
   g \<in> set (guests s) \<and> (guest_id g = [] \<or> seatCount (guest_id g) (tables s) = 0)"
  by (auto simp: unassignedGuests_def assigned_seatCount)

lemma unassignedGuests_filter:
  "unassignedGuests s =
     filter (\<lambda>g. guest_id g = [] \<or> seatCount (guest_id g) (tables s) = 0) (guests s)"
  unfolding unassignedGuests_def by (rule filter_cong) (auto simp: assigned_seatCount)

text \<open>
  Claim C3, as amended. \<open>setChairsCount\<close> leaves the guest list as it is, so nobody is
  deleted, and leaves every table with another id as it is. A table that it shrinks
  keeps its first \<open>clamp n 2 20\<close> chairs as they were (identities, guest references,
  order) and every other field. For every guest id, the chairs that reference it
  afterwards are those that did before less the removed ones. So the unassigned pool
  afterwards is, in the order of the guest list, exactly the guests with an empty id
  and the guests all of whose chairs were removed (in particular those who had no
  chair): a guest who sat only on removed chairs enters the pool, a guest who also
  sits on a chair that remains stays assigned, nobody leaves the pool.
\<close>

theorem setChairsCount_shrink_unassigns:
  "guests (setChairsCount uid tableId n s) = guests s \<and>
   length (tables (setChairsCount uid tableId n s)) = length (tables s) \<and>
   (\<forall>i < length (tables s).
      (table_id (tables s ! i) \<noteq> tableId \<longrightarrow>
         tables (setChairsCount uid tableId n s) ! i = tables s ! i) \<and>
      (table_id (tables s ! i) = tableId \<and> clamp n 2 20 < int (length (chairs (tables s ! i))) \<longrightarrow>
         chairs (tables (setChairsCount uid tableId n s) ! i) =
           take (nat (clamp n 2 20)) (chairs (tables s ! i)) \<and>
         (tables (setChairsCount uid tableId n s) ! i)\<lparr>chairs := chairs (tables s ! i)\<rparr> = tables s ! i)) \<and>
   (\<forall>g. seatCount g (tables (setChairsCount uid tableId n s)) +
          length (filter (\<lambda>c. guestId c = Some g) (removedChairs tableId n (tables s))) =
        seatCount g (tables s)) \<and>
   unassignedGuests (setChairsCount uid tableId n s) =
     filter (\<lambda>g. guest_id g = [] \<or>
                seatCount (guest_id g) (tables s) =
                  length (filter (\<lambda>c. guestId c = Some (guest_id g)) (removedChairs tableId n (tables s))))
       (guests s)"
proof -
  let ?s' = "setChairsCount uid tableId n s"
  have cnt: "\<forall>g. seatCount g (tables ?s') +
      length (filter (\<lambda>c. guestId c = Some g) (removedChairs tableId n (tables s))) =
      seatCount g (tables s)"
    unfolding setChairsCount_tables by (simp add: setChairsCount_count)
  have a: "guests ?s' = guests s"
    by (rule setChairsCount_guests)
  have l: "length (tables ?s') = length (tables s)"
    by (simp add: setChairsCount_tables)
  have b: "\<forall>i < length (tables s).
      (table_id (tables s ! i) \<noteq> tableId \<longrightarrow> tables ?s' ! i = tables s ! i) \<and>
      (table_id (tables s ! i) = tableId \<and> clamp n 2 20 < int (length (chairs (tables s ! i))) \<longrightarrow>
         chairs (tables ?s' ! i) = take (nat (clamp n 2 20)) (chairs (tables s ! i)) \<and>
         (tables ?s' ! i)\<lparr>chairs := chairs (tables s ! i)\<rparr> = tables s ! i)"
    by (simp add: setChairsCount_tables setChairsCount_table_shrink setChairsCount_table_fields
        setChairsCount_table_other)
  have p: "unassignedGuests ?s' =
     filter (\<lambda>g. guest_id g = [] \<or>
                seatCount (guest_id g) (tables s) =
                  length (filter (\<lambda>c. guestId c = Some (guest_id g)) (removedChairs tableId n (tables s))))
       (guests s)"
    unfolding unassignedGuests_filter a
  proof (rule filter_cong [OF refl])
    fix g
    from cnt have "seatCount (guest_id g) (tables ?s') +
        length (filter (\<lambda>c. guestId c = Some (guest_id g)) (removedChairs tableId n (tables s))) =
        seatCount (guest_id g) (tables s)"
      by (rule spec)
    then show "(guest_id g = [] \<or> seatCount (guest_id g) (tables ?s') = 0) =
        (guest_id g = [] \<or>
         seatCount (guest_id g) (tables s) =
           length (filter (\<lambda>c. guestId c = Some (guest_id g)) (removedChairs tableId n (tables s))))"
      by auto
  qed
  show ?thesis
    by (rule conjI [OF a conjI [OF l conjI [OF b conjI [OF cnt p]]]])
qed

text \<open>
  Witness for claim C3. On the initial state, the example of the specification: table
  \<open>t1\<close> has eight chairs, the first four assigned; shrunk to three chairs it keeps the
  first three as they were, and the pool, empty before, holds exactly \<open>g4\<close>. And on
  the state after duplicating \<open>t1\<close>: shrinking the copy removes a chair of \<open>g4\<close>, who
  also sits at \<open>t1\<close> and so stays out of the pool.
\<close>

theorem setChairsCount_shrink_unassigns_witness:
  "chairs (tables (setChairsCount sample_uid ''t1'' 3 defaultPlan) ! 0) =
     [\<lparr>chair_id = ''t1c1'', guestId = Some ''g1''\<rparr>, \<lparr>chair_id = ''t1c2'', guestId = Some ''g2''\<rparr>,
      \<lparr>chair_id = ''t1c3'', guestId = Some ''g3''\<rparr>] \<and>
   tables (setChairsCount sample_uid ''t1'' 3 defaultPlan) ! 1 = tables defaultPlan ! 1 \<and>
   unassignedGuests defaultPlan = [] \<and>
   unassignedGuests (setChairsCount sample_uid ''t1'' 3 defaultPlan) = [mkGuest ''g4'' ''Liam Jones'' Male] \<and>
   guests (setChairsCount sample_uid ''t1'' 3 defaultPlan) = guests defaultPlan \<and>
   unassignedGuests (setChairsCount sample_uid (sample_uid ''t'') 3
     (duplicateTable sample_uid ''t1'' defaultPlan)) = []"
proof -
  note th = setChairsCount_shrink_unassigns [where uid = sample_uid and tableId = "''t1''" and n = 3 and s = defaultPlan]
  have i: "0 < length (tables defaultPlan)" and i1: "1 < length (tables defaultPlan)"
    by (simp_all add: defaultPlan_def defaultTables_def)
  have t: "table_id (tables defaultPlan ! 0) = ''t1'' \<and> clamp 3 2 20 < int (length (chairs (tables defaultPlan ! 0)))"
    by (simp add: defaultPlan_simps clamp_def)
  have t1: "table_id (tables defaultPlan ! 1) \<noteq> ''t1''"
    by (simp add: defaultPlan_simps)
  from th i t have "chairs (tables (setChairsCount sample_uid ''t1'' 3 defaultPlan) ! 0) =
          take (nat (clamp 3 2 20)) (chairs (tables defaultPlan ! 0))"
    by blast
  then have a: "chairs (tables (setChairsCount sample_uid ''t1'' 3 defaultPlan) ! 0) =
     [\<lparr>chair_id = ''t1c1'', guestId = Some ''g1''\<rparr>, \<lparr>chair_id = ''t1c2'', guestId = Some ''g2''\<rparr>,
      \<lparr>chair_id = ''t1c3'', guestId = Some ''g3''\<rparr>]"
    by (simp add: defaultPlan_simps clamp_def)
  from th i1 t1 have b: "tables (setChairsCount sample_uid ''t1'' 3 defaultPlan) ! 1 = tables defaultPlan ! 1"
    by blast
  have u0: "unassignedGuests defaultPlan = []"
    by (simp add: unassignedGuests_def assigned_def defaultPlan_simps)
  from th have "unassignedGuests (setChairsCount sample_uid ''t1'' 3 defaultPlan) =
     filter (\<lambda>g. guest_id g = [] \<or>
                seatCount (guest_id g) (tables defaultPlan) =
                  length (filter (\<lambda>c. guestId c = Some (guest_id g)) (removedChairs ''t1'' 3 (tables defaultPlan))))
       (guests defaultPlan)"
    by blast
  then have c: "unassignedGuests (setChairsCount sample_uid ''t1'' 3 defaultPlan) = [mkGuest ''g4'' ''Liam Jones'' Male]"
    by (simp add: defaultPlan_simps removedChairs_def seatCount_def clamp_def)
  from th have d: "guests (setChairsCount sample_uid ''t1'' 3 defaultPlan) = guests defaultPlan"
    by (rule conjunct1)
  let ?d = "duplicateTable sample_uid ''t1'' defaultPlan"
  note th2 = setChairsCount_shrink_unassigns [where uid = sample_uid and tableId = "sample_uid ''t''" and n = 3 and s = ?d]
  have dt: "tables ?d = defaultTables @
      [\<lparr>table_id = sample_uid ''t'', number = 4, label = None, shape = Round, numberStyle = Classic,
        isVip = Some True, pos_x = 288, pos_y = 240, rotation = 0,
        chairs = map (\<lambda>(i, c). \<lparr>chair_id = sample_uid ''t'' @ ''c'' @ String_of_nat (i + 1),
                                 guestId = guestId c\<rparr>)
                   (enumerate 0 (defaultChairs ''t1'' 8 4 1))\<rparr>]"
    and dg: "guests ?d = defaultGuests"
    by (simp_all add: duplicateTable_def defaultPlan_def defaultTables_def Let_def nextTableNumber_def snap_def)
  from th2 have "unassignedGuests (setChairsCount sample_uid (sample_uid ''t'') 3 ?d) =
     filter (\<lambda>g. guest_id g = [] \<or>
                seatCount (guest_id g) (tables ?d) =
                  length (filter (\<lambda>c. guestId c = Some (guest_id g))
                    (removedChairs (sample_uid ''t'') 3 (tables ?d))))
       (guests ?d)"
    by blast
  then have e: "unassignedGuests (setChairsCount sample_uid (sample_uid ''t'') 3 ?d) = []"
    unfolding dt dg
    by (simp add: defaultTables_def defaultGuests_def mkGuest_def defaultChairs_simps removedChairs_def
        seatCount_def clamp_def sample_uid_def enumerate_eq_zip)
  from a b u0 c d e show ?thesis by (intro conjI)
qed

text \<open>
  Claim C3 as stated fails in a state that the page reaches from its initial state:
  duplicate table \<open>t1\<close> (the copy, at index 3, seats \<open>g1\<close> to \<open>g4\<close> again), then shrink the
  copy to three chairs. Guest \<open>g4\<close> sat on the copy's fourth chair, which is removed,
  but still sits at table \<open>t1\<close>, so the unassigned pool stays empty.
\<close>

theorem setChairsCount_shrink_counterexample:
  "guestId (chairs (tables (duplicateTable sample_uid ''t1'' defaultPlan) ! 3) ! 3) = Some ''g4'' \<and>
   chairs (tables (setChairsCount sample_uid (sample_uid ''t'') 3 (duplicateTable sample_uid ''t1'' defaultPlan)) ! 3) =
     take 3 (chairs (tables (duplicateTable sample_uid ''t1'' defaultPlan) ! 3)) \<and>
   mkGuest ''g4'' ''Liam Jones'' Male \<in>
     set (guests (setChairsCount sample_uid (sample_uid ''t'') 3 (duplicateTable sample_uid ''t1'' defaultPlan))) \<and>
   unassignedGuests (setChairsCount sample_uid (sample_uid ''t'') 3 (duplicateTable sample_uid ''t1'' defaultPlan)) = []"
  by (simp add: duplicateTable_def defaultPlan_simps enumerate_eq_zip Let_def setChairsCount_def
      setChairsCount_table_def sample_uid_def clamp_def unassignedGuests_def assigned_def)

section \<open>Assigning a guest from the seat popover\<close>

text \<open>
  The seat popover of chair \<open>c\<close> of table \<open>t\<close> renders one assign button for each of the
  first six unassigned guests; its click handler is \<^verbatim>\<open>assignGuest(t.id, c.id, g.id)\<close>, with
  nothing before it. \<open>assignButtons\<close> lists the buttons on the page by the three ids,
  \<open>clickAssign\<close> is the handler.
\<close>

definition assignButtons :: "Plan \<Rightarrow> (string \<times> string \<times> string) list" where
  "assignButtons s =
     concat (map (\<lambda>t. concat (map (\<lambda>c.
        map (\<lambda>g. (table_id t, chair_id c, guest_id g)) (take 6 (unassignedGuests s)))
        (chairs t))) (tables s))"

definition clickAssign :: "string \<times> string \<times> string \<Rightarrow> Plan \<Rightarrow> Plan" where
  "clickAssign b s = (case b of (tableId, chairId, gid) \<Rightarrow> assignGuest tableId chairId (Some gid) s)"

text \<open>The chairs of the plan by table id and chair id, in order.\<close>

definition chairKeys :: "TableModel list \<Rightarrow> (string \<times> string) list" where
  "chairKeys ts = concat (map (\<lambda>t. map (\<lambda>c. (table_id t, chair_id c)) (chairs t)) ts)"

lemma assign_chairs_count:
  "length (filter (\<lambda>c. guestId c = Some h)
      (map (\<lambda>c. if chair_id c = chairId then c\<lparr>guestId := Some g\<rparr> else c) cs)) =
   length (filter (\<lambda>c. if chair_id c = chairId then g = h else guestId c = Some h) cs)"
  by (induction cs) auto

lemma assign_chairs_count_other:
  "h \<noteq> g \<Longrightarrow>
   length (filter (\<lambda>c. guestId c = Some h)
      (map (\<lambda>c. if chair_id c = chairId then c\<lparr>guestId := Some g\<rparr> else c) cs)) \<le>
   length (filter (\<lambda>c. guestId c = Some h) cs)"
  unfolding assign_chairs_count by (induction cs) auto

lemma assign_chairs_count_fresh:
  "\<forall>c \<in> set cs. guestId c \<noteq> Some g \<Longrightarrow>
   length (filter (\<lambda>c. guestId c = Some g)
      (map (\<lambda>c. if chair_id c = chairId then c\<lparr>guestId := Some g\<rparr> else c) cs)) =
   count_list (map (\<lambda>c. (tid, chair_id c)) cs) (tid, chairId)"
  unfolding assign_chairs_count by (induction cs) auto

lemma count_keys_other_table:
  "tid \<noteq> tableId \<Longrightarrow> count_list (map (\<lambda>c. (tid, chair_id c)) cs) (tableId, chairId) = 0"
  by (induction cs) auto

lemma count_list_append: "count_list (xs @ ys) x = count_list xs x + count_list ys x"
  by (induction xs) auto

lemma assignGuest_table_count_other:
  "h \<noteq> g \<Longrightarrow>
   length (filter (\<lambda>c. guestId c = Some h) (chairs (assignGuest_table tableId chairId (Some g) t))) \<le>
   length (filter (\<lambda>c. guestId c = Some h) (chairs t))"
  by (simp add: assignGuest_table_def assign_chairs_count_other del: length_filter_map)

lemma assignGuest_table_count_fresh:
  "\<forall>c \<in> set (chairs t). guestId c \<noteq> Some g \<Longrightarrow>
   length (filter (\<lambda>c. guestId c = Some g) (chairs (assignGuest_table tableId chairId (Some g) t))) =
   count_list (map (\<lambda>c. (table_id t, chair_id c)) (chairs t)) (tableId, chairId)"
  by (simp add: assignGuest_table_def assign_chairs_count_fresh count_keys_other_table filter_empty_conv del: length_filter_map)

lemma assignGuest_seatCount_other:
  "h \<noteq> g \<Longrightarrow> seatCount h (map (assignGuest_table tableId chairId (Some g)) ts) \<le> seatCount h ts"
proof (induction ts)
  case Nil
  then show ?case by (simp add: seatCount_def)
next
  case (Cons t ts)
  then show ?case
    using assignGuest_table_count_other [of h g tableId chairId t]
    by (simp add: seatCount_def)
qed

lemma assignGuest_seatCount_fresh:
  "\<forall>t \<in> set ts. \<forall>c \<in> set (chairs t). guestId c \<noteq> Some g \<Longrightarrow>
   seatCount g (map (assignGuest_table tableId chairId (Some g)) ts) =
   count_list (chairKeys ts) (tableId, chairId)"
proof (induction ts)
  case Nil
  then show ?case by (simp add: seatCount_def chairKeys_def)
next
  case (Cons t ts)
  then show ?case
    using assignGuest_table_count_fresh [of t g tableId chairId]
    by (simp add: seatCount_def chairKeys_def count_list_append)
qed

lemma assignGuest_nth:
  "i < length (tables s) \<Longrightarrow> j < length (chairs (tables s ! i)) \<Longrightarrow>
   chairs (tables (assignGuest tableId chairId gid s) ! i) ! j =
     (if table_id (tables s ! i) = tableId \<and> chair_id (chairs (tables s ! i) ! j) = chairId
      then (chairs (tables s ! i) ! j)\<lparr>guestId := gid\<rparr>
      else chairs (tables s ! i) ! j)"
  by (simp add: assignGuest_def assignGuest_table_def)

lemma assignButtons_iff:
  "(tableId, chairId, gid) \<in> set (assignButtons s) \<longleftrightarrow>
   (tableId, chairId) \<in> set (chairKeys (tables s)) \<and> gid \<in> guest_id ` set (take 6 (unassignedGuests s))"
  by (auto simp: assignButtons_def chairKeys_def)


lemma unassigned_take_seatCount:
  "gid \<in> guest_id ` set (take 6 (unassignedGuests s)) \<Longrightarrow> gid \<noteq> [] \<Longrightarrow> seatCount gid (tables s) = 0"
  by (auto simp: unassigned_iff dest!: in_set_takeD)

text \<open>
  Claim C1, as amended. The click handler of an assign button sets the guest reference
  of the chairs with the button's table id and chair id and leaves every other chair
  as it is, so a seat the guest already had would stay occupied. But a button exists
  only for a guest of the unassigned pool: when it is clicked (the guest's id not
  empty, the chair the only one with its table id and chair id) exactly one chair
  references the guest afterwards, and no other guest gains a seat.
\<close>

theorem clickAssign_one_seat:
  "length (tables (clickAssign (tableId, chairId, gid) s)) = length (tables s) \<and>
   (\<forall>i < length (tables s).
      length (chairs (tables (clickAssign (tableId, chairId, gid) s) ! i)) = length (chairs (tables s ! i)) \<and>
      (\<forall>j < length (chairs (tables s ! i)).
         chairs (tables (clickAssign (tableId, chairId, gid) s) ! i) ! j =
           (if table_id (tables s ! i) = tableId \<and> chair_id (chairs (tables s ! i) ! j) = chairId
            then (chairs (tables s ! i) ! j)\<lparr>guestId := Some gid\<rparr>
            else chairs (tables s ! i) ! j))) \<and>
   ((tableId, chairId, gid) \<in> set (assignButtons s) \<and> gid \<noteq> [] \<and>
    count_list (chairKeys (tables s)) (tableId, chairId) = 1 \<longrightarrow>
      seatCount gid (tables (clickAssign (tableId, chairId, gid) s)) = 1) \<and>
   (\<forall>h. h \<noteq> gid \<longrightarrow>
      seatCount h (tables (clickAssign (tableId, chairId, gid) s)) \<le> seatCount h (tables s))"
proof -
  have ca: "clickAssign (tableId, chairId, gid) s = assignGuest tableId chairId (Some gid) s"
    by (simp add: clickAssign_def)
  have tb: "tables (assignGuest tableId chairId (Some gid) s) =
      map (assignGuest_table tableId chairId (Some gid)) (tables s)"
    by (simp add: assignGuest_def)
  have a: "length (tables (clickAssign (tableId, chairId, gid) s)) = length (tables s)"
    by (simp add: ca tb)
  have b: "\<forall>i < length (tables s).
      length (chairs (tables (clickAssign (tableId, chairId, gid) s) ! i)) = length (chairs (tables s ! i)) \<and>
      (\<forall>j < length (chairs (tables s ! i)).
         chairs (tables (clickAssign (tableId, chairId, gid) s) ! i) ! j =
           (if table_id (tables s ! i) = tableId \<and> chair_id (chairs (tables s ! i) ! j) = chairId
            then (chairs (tables s ! i) ! j)\<lparr>guestId := Some gid\<rparr>
            else chairs (tables s ! i) ! j))"
    unfolding ca by (simp add: assignGuest_nth) (simp add: tb assignGuest_table_def)
  have c: "(tableId, chairId, gid) \<in> set (assignButtons s) \<and> gid \<noteq> [] \<and>
      count_list (chairKeys (tables s)) (tableId, chairId) = 1 \<longrightarrow>
      seatCount gid (tables (clickAssign (tableId, chairId, gid) s)) = 1"
  proof
    assume h: "(tableId, chairId, gid) \<in> set (assignButtons s) \<and> gid \<noteq> [] \<and>
      count_list (chairKeys (tables s)) (tableId, chairId) = 1"
    then have "seatCount gid (tables s) = 0"
      by (simp add: assignButtons_iff unassigned_take_seatCount)
    then have "\<forall>t \<in> set (tables s). \<forall>c \<in> set (chairs t). guestId c \<noteq> Some gid"
      by (simp only: seatCount_zero_iff)
    then have "seatCount gid (map (assignGuest_table tableId chairId (Some gid)) (tables s)) =
        count_list (chairKeys (tables s)) (tableId, chairId)"
      by (rule assignGuest_seatCount_fresh)
    with h show "seatCount gid (tables (clickAssign (tableId, chairId, gid) s)) = 1"
      by (simp add: ca tb)
  qed
  have d: "\<forall>h. h \<noteq> gid \<longrightarrow>
      seatCount h (tables (clickAssign (tableId, chairId, gid) s)) \<le> seatCount h (tables s)"
    by (simp add: ca tb assignGuest_seatCount_other)
  show ?thesis
    by (rule conjI [OF a conjI [OF b conjI [OF c d]]])
qed

text \<open>
  Witness for claim C1: in the initial state the fourth chair of table \<open>t1\<close> is cleared
  (the clear button of its popover), which puts \<open>g4\<close> in the pool; the assign button
  for \<open>g4\<close> on the fourth chair of table \<open>t2\<close> then seats \<open>g4\<close> there and nowhere else.
\<close>

theorem clickAssign_one_seat_witness:
  "(''t2'', ''t2c4'', ''g4'') \<in> set (assignButtons (assignGuest ''t1'' ''t1c4'' None defaultPlan)) \<and>
   seatCount ''g4'' (tables (clickAssign (''t2'', ''t2c4'', ''g4'') (assignGuest ''t1'' ''t1c4'' None defaultPlan))) = 1 \<and>
   guestId (chairs (tables (clickAssign (''t2'', ''t2c4'', ''g4'') (assignGuest ''t1'' ''t1c4'' None defaultPlan)) ! 1) ! 3) =
     Some ''g4''"
proof -
  let ?s = "assignGuest ''t1'' ''t1c4'' None defaultPlan"
  note th = clickAssign_one_seat [where tableId = "''t2''" and chairId = "''t2c4''" and gid = "''g4''" and s = ?s]
  have u: "unassignedGuests ?s = [mkGuest ''g4'' ''Liam Jones'' Male]"
    by (simp add: unassignedGuests_def assigned_def assignGuest_def assignGuest_table_def defaultPlan_simps)
  have k: "(''t2'', ''t2c4'') \<in> set (chairKeys (tables ?s)) \<and>
           count_list (chairKeys (tables ?s)) (''t2'', ''t2c4'') = 1"
    by (simp add: chairKeys_def assignGuest_def assignGuest_table_def defaultPlan_simps)
  have btn: "(''t2'', ''t2c4'', ''g4'') \<in> set (assignButtons ?s)"
    unfolding assignButtons_iff u using k by (simp add: mkGuest_def)
  have i: "1 < length (tables ?s)" and j: "3 < length (chairs (tables ?s ! 1))"
    and t: "table_id (tables ?s ! 1) = ''t2'' \<and> chair_id (chairs (tables ?s ! 1) ! 3) = ''t2c4''"
    by (simp_all add: assignGuest_def assignGuest_table_def defaultPlan_simps)
  from th btn k have one: "seatCount ''g4'' (tables (clickAssign (''t2'', ''t2c4'', ''g4'') ?s)) = 1"
    by simp
  from th i j have "chairs (tables (clickAssign (''t2'', ''t2c4'', ''g4'') ?s) ! 1) ! 3 =
      (if table_id (tables ?s ! 1) = ''t2'' \<and> chair_id (chairs (tables ?s ! 1) ! 3) = ''t2c4''
       then (chairs (tables ?s ! 1) ! 3)\<lparr>guestId := Some ''g4''\<rparr>
       else chairs (tables ?s ! 1) ! 3)"
    by blast
  with t have held: "guestId (chairs (tables (clickAssign (''t2'', ''t2c4'', ''g4'') ?s) ! 1) ! 3) = Some ''g4''"
    by simp
  from btn one held show ?thesis by (intro conjI)
qed

text \<open>
  Claim C1 as stated fails. In the initial state \<open>g1\<close> sits on the first chair of table
  \<open>t1\<close>; \<open>assignGuest\<close> of \<open>g1\<close> to the fifth chair leaves the first chair occupied, so
  both reference \<open>g1\<close>. And a state with two chairs for one guest is reached from the
  initial state by duplicating table \<open>t1\<close>.
\<close>

theorem assignGuest_seated_counterexample:
  "guestId (chairs (tables defaultPlan ! 0) ! 0) = Some ''g1'' \<and>
   guestId (chairs (tables (assignGuest ''t1'' ''t1c5'' (Some ''g1'') defaultPlan) ! 0) ! 0) = Some ''g1'' \<and>
   guestId (chairs (tables (assignGuest ''t1'' ''t1c5'' (Some ''g1'') defaultPlan) ! 0) ! 4) = Some ''g1'' \<and>
   seatCount ''g1'' (tables (duplicateTable sample_uid ''t1'' defaultPlan)) = 2"
  by (simp add: assignGuest_def assignGuest_table_def defaultPlan_simps duplicateTable_def
      enumerate_eq_zip Let_def seatCount_def)

section \<open>Chair geometry\<close>

text \<open>
  \<^verbatim>\<open>ChairDot\<close> and \<^verbatim>\<open>ChairRect\<close> are the decorative chairs; the interactive seat markers
  are computed inline in the page's render function, here \<open>seatMarker\<close>. Each gives the
  \<^verbatim>\<open>left\<close> and \<^verbatim>\<open>top\<close> of the chair as an offset from the centre (50%, 50%) of the table
  element, in pixels.

  \<^verbatim>\<open>Math.PI\<close>, \<^verbatim>\<open>Math.cos\<close> and \<^verbatim>\<open>Math.sin\<close> are the platform's: a double constant next to
  \<open>pi\<close> and two functions that approximate the cosine and the sine. They are parameters
  of the model, collected in \<open>JsMath\<close>. \<open>accurate eps m\<close> says that they are within
  \<open>eps\<close> of the mathematical constant and functions, and that the cosine and sine of 0
  are 1 and 0 (as ECMAScript prescribes).
\<close>

record JsMath =
  Math_PI :: real
  Math_cos :: "real \<Rightarrow> real"
  Math_sin :: "real \<Rightarrow> real"

definition accurate :: "real \<Rightarrow> JsMath \<Rightarrow> bool" where
  "accurate eps m =
     (\<bar>Math_PI m - pi\<bar> \<le> eps \<and> (\<forall>x. \<bar>Math_cos m x - cos x\<bar> \<le> eps) \<and>
      (\<forall>x. \<bar>Math_sin m x - sin x\<bar> \<le> eps) \<and> Math_cos m 0 = 1 \<and> Math_sin m 0 = 0)"

definition ChairDot :: "JsMath \<Rightarrow> nat \<Rightarrow> nat \<Rightarrow> real \<Rightarrow> real \<Rightarrow> real \<times> real" where
  "ChairDot m index tot radius rot =
     (let angle = ((Math_PI m * 2) / real tot) * real index + rot
      in (Math_cos m angle * radius, Math_sin m angle * radius))"

definition ChairRect :: "nat \<Rightarrow> nat \<Rightarrow> real \<Rightarrow> real \<Rightarrow> real \<times> real" where
  "ChairRect index tot w h =
     (let perSide = \<lceil>real tot / 4\<rceil>;
          side = \<lfloor>real index / real_of_int perSide\<rfloor>;
          posOnSide = int index mod perSide;
          t = (if perSide \<le> 1 then 1 / 2 else real_of_int posOnSide / real_of_int (perSide - 1))
      in if side = 0 then (- w / 2 + t * w, - h / 2)
         else if side = 1 then (w / 2, - h / 2 + t * h)
         else if side = 2 then (- w / 2 + t * w, h / 2)
         else (- w / 2, - h / 2 + t * h))"

definition chairRadius :: "TableModel \<Rightarrow> real" where
  "chairRadius t = (if shape t = Rect then 80 else 70)"

definition chairDecoration :: "JsMath \<Rightarrow> TableModel \<Rightarrow> nat \<Rightarrow> real \<times> real" where
  "chairDecoration m t i =
     (if shape t = Rect then ChairRect i (length (chairs t)) 126 74
      else ChairDot m i (length (chairs t)) (chairRadius t) (rotation t))"

definition seatMarker :: "JsMath \<Rightarrow> TableModel \<Rightarrow> nat \<Rightarrow> real \<times> real" where
  "seatMarker m t i =
     (let tot = length (chairs t);
          angle = (if shape t = Round then ((Math_PI m * 2) / real tot) * real i + rotation t else 0);
          r = (if shape t = Round then chairRadius t else 0)
      in if shape t = Round then (Math_cos m angle * r, Math_sin m angle * r)
         else
           let perSide = \<lceil>real tot / 4\<rceil>;
               side = \<lfloor>real i / real_of_int perSide\<rfloor>;
               posOnSide = int i mod perSide;
               tt = (if perSide \<le> 1 then 1 / 2 else real_of_int posOnSide / real_of_int (perSide - 1));
               w = 126; h = 74
           in if side = 0 then (- w / 2 + tt * w, - h / 2 - 18)
              else if side = 1 then (w / 2 + 18, - h / 2 + tt * h)
              else if side = 2 then (- w / 2 + tt * w, h / 2 + 18)
              else (- w / 2 - 18, - h / 2 + tt * h))"

text \<open>
  The table element carries \<^verbatim>\<open>transform: translate(-50%, -50%) rotate(${t.rotation}rad)\<close>
  and contains both chair layers: its centre is put at the table's position and the
  element, chairs included, is turned about that centre by the table's rotation.
  \<open>cssRotate\<close> is that rotation in the page's coordinates (y downwards), taken exactly;
  the two functions after it give where a chair stands on the page, as an offset from
  the table's position.
\<close>

definition cssRotate :: "real \<Rightarrow> real \<times> real \<Rightarrow> real \<times> real" where
  "cssRotate a p = (fst p * cos a - snd p * sin a, fst p * sin a + snd p * cos a)"

definition seatMarkerOnPage :: "JsMath \<Rightarrow> TableModel \<Rightarrow> nat \<Rightarrow> real \<times> real" where
  "seatMarkerOnPage m t i = cssRotate (rotation t) (seatMarker m t i)"

definition chairDecorationOnPage :: "JsMath \<Rightarrow> TableModel \<Rightarrow> nat \<Rightarrow> real \<times> real" where
  "chairDecorationOnPage m t i = cssRotate (rotation t) (chairDecoration m t i)"

text \<open>
  Two platforms for the concrete runs: the ideal one, and one whose \<^verbatim>\<open>Math.PI\<close> is a
  little below \<open>pi\<close>, as the double is.
\<close>

definition idealMath :: JsMath where
  "idealMath = \<lparr>Math_PI = pi, Math_cos = cos, Math_sin = sin\<rparr>"


lemma accurate_idealMath: "accurate 0 idealMath"
  by (simp add: accurate_def idealMath_def)


subsection \<open>Round tables\<close>
















subsection \<open>Rectangular tables\<close>

text \<open>
  The placement in the words of the specification: chairs per side \<open>ceil (n / 4)\<close>,
  side \<open>floor (i / perSide)\<close>, position on the side \<open>i mod perSide\<close>, the fraction
  along the side, the point of the side's edge at that fraction, and the outward
  direction of each side (top, right, bottom, left).
\<close>

definition rectPerSide :: "nat \<Rightarrow> nat" where
  "rectPerSide n = nat \<lceil>real n / 4\<rceil>"

definition rectSide :: "nat \<Rightarrow> nat \<Rightarrow> nat" where
  "rectSide n i = i div rectPerSide n"

definition rectPosOnSide :: "nat \<Rightarrow> nat \<Rightarrow> nat" where
  "rectPosOnSide n i = i mod rectPerSide n"

definition rectFraction :: "nat \<Rightarrow> nat \<Rightarrow> real" where
  "rectFraction n i =
     (if rectPerSide n \<le> 1 then 1 / 2 else real (rectPosOnSide n i) / real (rectPerSide n - 1))"

definition edgePoint :: "nat \<Rightarrow> real \<Rightarrow> real \<Rightarrow> real \<Rightarrow> real \<times> real" where
  "edgePoint side f w h =
     (if side = 0 then (- w / 2 + f * w, - h / 2)
      else if side = 1 then (w / 2, - h / 2 + f * h)
      else if side = 2 then (- w / 2 + f * w, h / 2)
      else (- w / 2, - h / 2 + f * h))"

definition outward :: "nat \<Rightarrow> real \<times> real" where
  "outward side =
     (if side = 0 then (0, - 1) else if side = 1 then (1, 0) else if side = 2 then (0, 1) else (- 1, 0))"

lemma ceiling_quarter: "\<lceil>real n / 4\<rceil> = int ((n + 3) div 4)"
  by linarith

lemma rectPerSide_eq: "rectPerSide n = (n + 3) div 4"
  by (simp add: rectPerSide_def ceiling_quarter)

lemma rectPerSide_pos: "0 < n \<Longrightarrow> 0 < rectPerSide n"
  by (simp add: rectPerSide_eq)

lemma rectSide_less_4: "i < n \<Longrightarrow> rectSide n i < 4"
proof -
  assume "i < n"
  then have "i < rectPerSide n * 4" and "0 < rectPerSide n"
    by (simp_all add: rectPerSide_eq)
  then show ?thesis
    by (simp add: rectSide_def div_less_iff_less_mult)
qed

lemma rectFraction_range: "0 \<le> rectFraction n i \<and> rectFraction n i \<le> 1"
proof (cases "rectPerSide n \<le> 1")
  case True
  then show ?thesis by (simp add: rectFraction_def)
next
  case False
  then have "0 < rectPerSide n" by simp
  then have "i mod rectPerSide n < rectPerSide n" by (rule mod_less_divisor)
  then have "rectPosOnSide n i \<le> rectPerSide n - 1"
    unfolding rectPosOnSide_def by linarith
  with False show ?thesis by (simp add: rectFraction_def)
qed

lemma source_side:
  "0 < n \<Longrightarrow> \<lfloor>real i / real_of_int \<lceil>real n / 4\<rceil>\<rfloor> = int (rectSide n i)"
  by (simp add: ceiling_quarter rectSide_def rectPerSide_eq floor_divide_of_nat_eq)

lemma source_posOnSide:
  "int i mod \<lceil>real n / 4\<rceil> = int (rectPosOnSide n i)"
  by (simp add: ceiling_quarter rectPosOnSide_def rectPerSide_eq zmod_int)

lemma source_fraction:
  "0 < n \<Longrightarrow>
   (if \<lceil>real n / 4\<rceil> \<le> 1 then 1 / 2
    else real_of_int (int i mod \<lceil>real n / 4\<rceil>) / real_of_int (\<lceil>real n / 4\<rceil> - 1)) =
   rectFraction n i"
  unfolding source_posOnSide
  by (simp add: ceiling_quarter rectFraction_def rectPerSide_eq of_nat_diff)

lemma ChairRect_edgePoint:
  assumes "i < n"
  shows "ChairRect i n w h = edgePoint (rectSide n i) (rectFraction n i) w h"
proof -
  from assms have n: "0 < n" by linarith
  show ?thesis
    unfolding ChairRect_def Let_def source_side [OF n] source_fraction [OF n]
    by (simp add: edgePoint_def)
qed

lemma seatMarker_rect:
  assumes "shape t = Rect" and "i < length (chairs t)"
  shows "seatMarker m t i =
     (fst (edgePoint (rectSide (length (chairs t)) i) (rectFraction (length (chairs t)) i) 126 74) +
        18 * fst (outward (rectSide (length (chairs t)) i)),
      snd (edgePoint (rectSide (length (chairs t)) i) (rectFraction (length (chairs t)) i) 126 74) +
        18 * snd (outward (rectSide (length (chairs t)) i)))"
proof -
  from assms(2) have n: "0 < length (chairs t)" by linarith
  show ?thesis
    unfolding seatMarker_def Let_def source_side [OF n] source_fraction [OF n]
    using assms(1) by (simp add: edgePoint_def outward_def)
qed

lemma edgePoint_on_boundary:
  assumes "0 \<le> f" "f \<le> 1"
  shows "(\<bar>fst (edgePoint k f 126 74)\<bar> = 63 \<and> \<bar>snd (edgePoint k f 126 74)\<bar> \<le> 37) \<or>
         (\<bar>snd (edgePoint k f 126 74)\<bar> = 37 \<and> \<bar>fst (edgePoint k f 126 74)\<bar> \<le> 63)"
  using assms by (auto simp: edgePoint_def abs_if)

lemma rect_offsets_ignore_rotation:
  "shape t = Rect \<Longrightarrow>
   seatMarker m (t\<lparr>rotation := r\<rparr>) i = seatMarker m t i \<and>
   chairDecoration m (t\<lparr>rotation := r\<rparr>) i = chairDecoration m t i"
  by (simp add: seatMarker_def chairDecoration_def)

lemma rect_turns_on_page:
  "shape t = Rect \<Longrightarrow>
   seatMarkerOnPage m (t\<lparr>rotation := r\<rparr>) i = cssRotate r (seatMarker m t i) \<and>
   chairDecorationOnPage m (t\<lparr>rotation := r\<rparr>) i = cssRotate r (chairDecoration m t i)"
  by (simp add: seatMarkerOnPage_def chairDecorationOnPage_def rect_offsets_ignore_rotation)

lemma rotation_squares:
  "(a * c - b * s)\<^sup>2 + (a * s + b * c)\<^sup>2 = (a\<^sup>2 + b\<^sup>2) * (c\<^sup>2 + s\<^sup>2)" for a b c s :: real
  by (simp add: power2_eq_square algebra_simps)

lemma cssRotate_distance:
  "(fst (cssRotate r p))\<^sup>2 + (snd (cssRotate r p))\<^sup>2 = (fst p)\<^sup>2 + (snd p)\<^sup>2"
  unfolding cssRotate_def fst_conv snd_conv rotation_squares
  by (simp only: sin_cos_squared_add2 mult_1_right)

lemma rect_twelve_fractions:
  "map (\<lambda>i. (rectSide 12 i, rectFraction 12 i)) [0 ..< 12] =
     [(0, 0), (0, 1 / 2), (0, 1), (1, 0), (1, 1 / 2), (1, 1),
      (2, 0), (2, 1 / 2), (2, 1), (3, 0), (3, 1 / 2), (3, 1)]"
  by (simp add: rectSide_def rectFraction_def rectPosOnSide_def rectPerSide_eq upt_rec)

lemma rect_twelve_positions:
  "map (\<lambda>i. ChairRect i 12 126 74) [0 ..< 12] =
     [(- 63, - 37), (0, - 37), (63, - 37), (63, - 37), (63, 0), (63, 37),
      (- 63, 37), (0, 37), (63, 37), (- 63, - 37), (- 63, 0), (- 63, 37)]"
  by (simp add: ChairRect_def Let_def upt_rec)

text \<open>
  Claim C6, as amended. For a rectangular table with \<open>n\<close> chairs, chair \<open>i\<close> is on side
  \<open>floor (i / ceil (n / 4))\<close>, one of the four, at the fraction \<open>t\<close> of the claim, which
  lies between 0 and 1; the offset of the decorative chair is the point of that side's
  edge of the 126 by 74 footprint at fraction \<open>t\<close>, so it lies on the footprint's
  boundary; the offset of the seat marker is that point moved 18 units outwards.
  These offsets do not depend on the table's rotation. But the table element that holds
  the chairs is turned by the rotation, so on the page the chairs of a rectangular
  table turn with it: a chair stands at its offset rotated by the table's rotation
  about the table's centre, at the same distance from the centre. With 12 chairs
  there are 3 chairs per side, at fractions 0, 1/2 and 1, the first and last at the
  corners.
\<close>

theorem rect_chair_positions:
  "(shape t = Rect \<and> i < length (chairs t) \<longrightarrow>
      rectSide (length (chairs t)) i < 4 \<and>
      0 \<le> rectFraction (length (chairs t)) i \<and> rectFraction (length (chairs t)) i \<le> 1 \<and>
      chairDecoration m t i =
        edgePoint (rectSide (length (chairs t)) i) (rectFraction (length (chairs t)) i) 126 74 \<and>
      ((\<bar>fst (chairDecoration m t i)\<bar> = 63 \<and> \<bar>snd (chairDecoration m t i)\<bar> \<le> 37) \<or>
       (\<bar>snd (chairDecoration m t i)\<bar> = 37 \<and> \<bar>fst (chairDecoration m t i)\<bar> \<le> 63)) \<and>
      seatMarker m t i =
        (fst (chairDecoration m t i) + 18 * fst (outward (rectSide (length (chairs t)) i)),
         snd (chairDecoration m t i) + 18 * snd (outward (rectSide (length (chairs t)) i))) \<and>
      seatMarker m (t\<lparr>rotation := r\<rparr>) i = seatMarker m t i \<and>
      chairDecoration m (t\<lparr>rotation := r\<rparr>) i = chairDecoration m t i \<and>
      seatMarkerOnPage m (t\<lparr>rotation := r\<rparr>) i = cssRotate r (seatMarker m t i) \<and>
      chairDecorationOnPage m (t\<lparr>rotation := r\<rparr>) i = cssRotate r (chairDecoration m t i) \<and>
      (fst (seatMarkerOnPage m (t\<lparr>rotation := r\<rparr>) i))\<^sup>2 +
        (snd (seatMarkerOnPage m (t\<lparr>rotation := r\<rparr>) i))\<^sup>2 =
        (fst (seatMarker m t i))\<^sup>2 + (snd (seatMarker m t i))\<^sup>2) \<and>
   rectPerSide 12 = 3 \<and>
   map (\<lambda>i. (rectSide 12 i, rectFraction 12 i)) [0 ..< 12] =
     [(0, 0), (0, 1 / 2), (0, 1), (1, 0), (1, 1 / 2), (1, 1),
      (2, 0), (2, 1 / 2), (2, 1), (3, 0), (3, 1 / 2), (3, 1)] \<and>
   map (\<lambda>i. ChairRect i 12 126 74) [0 ..< 12] =
     [(- 63, - 37), (0, - 37), (63, - 37), (63, - 37), (63, 0), (63, 37),
      (- 63, 37), (0, 37), (63, 37), (- 63, - 37), (- 63, 0), (- 63, 37)]"
proof -
  have a: "shape t = Rect \<and> i < length (chairs t) \<longrightarrow>
      rectSide (length (chairs t)) i < 4 \<and>
      0 \<le> rectFraction (length (chairs t)) i \<and> rectFraction (length (chairs t)) i \<le> 1 \<and>
      chairDecoration m t i =
        edgePoint (rectSide (length (chairs t)) i) (rectFraction (length (chairs t)) i) 126 74 \<and>
      ((\<bar>fst (chairDecoration m t i)\<bar> = 63 \<and> \<bar>snd (chairDecoration m t i)\<bar> \<le> 37) \<or>
       (\<bar>snd (chairDecoration m t i)\<bar> = 37 \<and> \<bar>fst (chairDecoration m t i)\<bar> \<le> 63)) \<and>
      seatMarker m t i =
        (fst (chairDecoration m t i) + 18 * fst (outward (rectSide (length (chairs t)) i)),
         snd (chairDecoration m t i) + 18 * snd (outward (rectSide (length (chairs t)) i))) \<and>
      seatMarker m (t\<lparr>rotation := r\<rparr>) i = seatMarker m t i \<and>
      chairDecoration m (t\<lparr>rotation := r\<rparr>) i = chairDecoration m t i \<and>
      seatMarkerOnPage m (t\<lparr>rotation := r\<rparr>) i = cssRotate r (seatMarker m t i) \<and>
      chairDecorationOnPage m (t\<lparr>rotation := r\<rparr>) i = cssRotate r (chairDecoration m t i) \<and>
      (fst (seatMarkerOnPage m (t\<lparr>rotation := r\<rparr>) i))\<^sup>2 +
        (snd (seatMarkerOnPage m (t\<lparr>rotation := r\<rparr>) i))\<^sup>2 =
        (fst (seatMarker m t i))\<^sup>2 + (snd (seatMarker m t i))\<^sup>2"
  proof
    assume h: "shape t = Rect \<and> i < length (chairs t)"
    then have sh: "shape t = Rect" and i: "i < length (chairs t)"
      by simp_all
    have side: "rectSide (length (chairs t)) i < 4"
      using i by (rule rectSide_less_4)
    have fr: "0 \<le> rectFraction (length (chairs t)) i" "rectFraction (length (chairs t)) i \<le> 1"
      using rectFraction_range [of "length (chairs t)" i] by simp_all
    have dec: "chairDecoration m t i =
        edgePoint (rectSide (length (chairs t)) i) (rectFraction (length (chairs t)) i) 126 74"
      using sh by (simp add: chairDecoration_def ChairRect_edgePoint [OF i])
    have bd: "(\<bar>fst (chairDecoration m t i)\<bar> = 63 \<and> \<bar>snd (chairDecoration m t i)\<bar> \<le> 37) \<or>
       (\<bar>snd (chairDecoration m t i)\<bar> = 37 \<and> \<bar>fst (chairDecoration m t i)\<bar> \<le> 63)"
      unfolding dec using fr by (rule edgePoint_on_boundary)
    have mk: "seatMarker m t i =
        (fst (chairDecoration m t i) + 18 * fst (outward (rectSide (length (chairs t)) i)),
         snd (chairDecoration m t i) + 18 * snd (outward (rectSide (length (chairs t)) i)))"
      unfolding dec using sh i by (rule seatMarker_rect)
    have rot: "seatMarker m (t\<lparr>rotation := r\<rparr>) i = seatMarker m t i"
      "chairDecoration m (t\<lparr>rotation := r\<rparr>) i = chairDecoration m t i"
      using rect_offsets_ignore_rotation [OF sh, of m r i] by simp_all
    have pg: "seatMarkerOnPage m (t\<lparr>rotation := r\<rparr>) i = cssRotate r (seatMarker m t i)"
      "chairDecorationOnPage m (t\<lparr>rotation := r\<rparr>) i = cssRotate r (chairDecoration m t i)"
      using rect_turns_on_page [OF sh, of m r i] by simp_all
    have ds: "(fst (seatMarkerOnPage m (t\<lparr>rotation := r\<rparr>) i))\<^sup>2 +
        (snd (seatMarkerOnPage m (t\<lparr>rotation := r\<rparr>) i))\<^sup>2 =
        (fst (seatMarker m t i))\<^sup>2 + (snd (seatMarker m t i))\<^sup>2"
      unfolding pg by (rule cssRotate_distance)
    from side fr dec bd mk rot pg ds
    show "rectSide (length (chairs t)) i < 4 \<and>
      0 \<le> rectFraction (length (chairs t)) i \<and> rectFraction (length (chairs t)) i \<le> 1 \<and>
      chairDecoration m t i =
        edgePoint (rectSide (length (chairs t)) i) (rectFraction (length (chairs t)) i) 126 74 \<and>
      ((\<bar>fst (chairDecoration m t i)\<bar> = 63 \<and> \<bar>snd (chairDecoration m t i)\<bar> \<le> 37) \<or>
       (\<bar>snd (chairDecoration m t i)\<bar> = 37 \<and> \<bar>fst (chairDecoration m t i)\<bar> \<le> 63)) \<and>
      seatMarker m t i =
        (fst (chairDecoration m t i) + 18 * fst (outward (rectSide (length (chairs t)) i)),
         snd (chairDecoration m t i) + 18 * snd (outward (rectSide (length (chairs t)) i))) \<and>
      seatMarker m (t\<lparr>rotation := r\<rparr>) i = seatMarker m t i \<and>
      chairDecoration m (t\<lparr>rotation := r\<rparr>) i = chairDecoration m t i \<and>
      seatMarkerOnPage m (t\<lparr>rotation := r\<rparr>) i = cssRotate r (seatMarker m t i) \<and>
      chairDecorationOnPage m (t\<lparr>rotation := r\<rparr>) i = cssRotate r (chairDecoration m t i) \<and>
      (fst (seatMarkerOnPage m (t\<lparr>rotation := r\<rparr>) i))\<^sup>2 +
        (snd (seatMarkerOnPage m (t\<lparr>rotation := r\<rparr>) i))\<^sup>2 =
        (fst (seatMarker m t i))\<^sup>2 + (snd (seatMarker m t i))\<^sup>2"
      by (intro conjI)
  qed
  have b: "rectPerSide 12 = 3"
    by (simp add: rectPerSide_eq)
  show ?thesis
    by (rule conjI [OF a conjI [OF b conjI [OF rect_twelve_fractions rect_twelve_positions]]])
qed

text \<open>
  Witness for claim C6: table \<open>t3\<close> of the initial state is rectangular with 12 chairs.
  Its third chair is the last of the top side: the decoration's offset is the corner
  \<open>(63, -37)\<close>, the seat marker's is 18 units above it, whatever the rotation; turned
  by a quarter, the table shows the marker at \<open>(55, 63)\<close> and the decoration at
  \<open>(37, 63)\<close>.
\<close>

theorem rect_chair_positions_witness:
  "chairDecoration idealMath (tables defaultPlan ! 2) 2 = (63, - 37) \<and>
   seatMarker idealMath (tables defaultPlan ! 2) 2 = (63, - 55) \<and>
   seatMarker idealMath ((tables defaultPlan ! 2)\<lparr>rotation := pi / 2\<rparr>) 2 = (63, - 55) \<and>
   seatMarkerOnPage idealMath ((tables defaultPlan ! 2)\<lparr>rotation := pi / 2\<rparr>) 2 = (55, 63) \<and>
   chairDecorationOnPage idealMath ((tables defaultPlan ! 2)\<lparr>rotation := pi / 2\<rparr>) 2 = (37, 63)"
proof -
  let ?t = "tables defaultPlan ! 2"
  have sh: "shape ?t = Rect" and len: "length (chairs ?t) = 12"
    by (simp_all add: defaultPlan_simps)
  have prem: "shape ?t = Rect \<and> 2 < length (chairs ?t)"
    unfolding len using sh by simp
  have sf: "rectSide 12 2 = 0" "rectFraction 12 2 = 1"
    by (simp_all add: rectSide_def rectFraction_def rectPosOnSide_def rectPerSide_eq)
  note th = rect_chair_positions [where t = ?t and i = 2 and r = "pi / 2" and m = idealMath]
  note general = mp [OF conjunct1 [OF th] prem]
  from general have dec: "chairDecoration idealMath ?t 2 =
      edgePoint (rectSide (length (chairs ?t)) 2) (rectFraction (length (chairs ?t)) 2) 126 74"
    by (elim conjE)
  from general have mk: "seatMarker idealMath ?t 2 =
      (fst (chairDecoration idealMath ?t 2) + 18 * fst (outward (rectSide (length (chairs ?t)) 2)),
       snd (chairDecoration idealMath ?t 2) + 18 * snd (outward (rectSide (length (chairs ?t)) 2)))"
    by (elim conjE)
  from general have rot: "seatMarker idealMath (?t\<lparr>rotation := pi / 2\<rparr>) 2 = seatMarker idealMath ?t 2"
    by (elim conjE)
  from general have pg: "seatMarkerOnPage idealMath (?t\<lparr>rotation := pi / 2\<rparr>) 2 =
      cssRotate (pi / 2) (seatMarker idealMath ?t 2)"
    by (elim conjE)
  from general have pd: "chairDecorationOnPage idealMath (?t\<lparr>rotation := pi / 2\<rparr>) 2 =
      cssRotate (pi / 2) (chairDecoration idealMath ?t 2)"
    by (elim conjE)
  have d: "chairDecoration idealMath ?t 2 = (63, - 37)"
    unfolding dec len sf by (simp add: edgePoint_def)
  have k: "seatMarker idealMath ?t 2 = (63, - 55)"
    unfolding mk d len sf by (simp add: outward_def)
  have p1: "seatMarkerOnPage idealMath (?t\<lparr>rotation := pi / 2\<rparr>) 2 = (55, 63)"
    unfolding pg k by (simp add: cssRotate_def)
  have p2: "chairDecorationOnPage idealMath (?t\<lparr>rotation := pi / 2\<rparr>) 2 = (37, 63)"
    unfolding pd d by (simp add: cssRotate_def)
  from d k rot p1 p2 show ?thesis by simp
qed

text \<open>
  Claim C6 as stated fails on the page: the placement of a rectangular table's chairs
  does depend on the rotation. Table \<open>t3\<close> of the initial state shows the marker of its
  third chair at \<open>(63, -55)\<close>. After one click on the rotate button (rotation 0.15) the
  marker stands lower than that, and at a quarter turn it stands at \<open>(55, 63)\<close>. The
  offsets for a rectangular table do not use the platform's \<^verbatim>\<open>Math\<close>.
\<close>

theorem rect_rotation_counterexample:
  "shape (tables defaultPlan ! 2) = Rect \<and>
   seatMarkerOnPage idealMath (tables defaultPlan ! 2) 2 = (63, - 55) \<and>
   - 55 < snd (seatMarkerOnPage idealMath ((tables defaultPlan ! 2)\<lparr>rotation := 15 / 100\<rparr>) 2) \<and>
   seatMarkerOnPage idealMath ((tables defaultPlan ! 2)\<lparr>rotation := pi / 2\<rparr>) 2 = (55, 63)"
proof -
  let ?t = "tables defaultPlan ! 2"
  have sh: "shape ?t = Rect" and len: "length (chairs ?t) = 12" and rot: "rotation ?t = 0"
    by (simp_all add: defaultPlan_simps)
  have i: "2 < length (chairs ?t)"
    unfolding len by simp
  have sf: "rectSide 12 2 = 0" "rectFraction 12 2 = 1"
    by (simp_all add: rectSide_def rectFraction_def rectPosOnSide_def rectPerSide_eq)
  have k: "seatMarker idealMath ?t 2 = (63, - 55)"
    unfolding seatMarker_rect [OF sh i] len sf by (simp add: edgePoint_def outward_def)
  have a: "seatMarkerOnPage idealMath ?t 2 = (63, - 55)"
    unfolding seatMarkerOnPage_def k rot by (simp add: cssRotate_def)
  have pg: "seatMarkerOnPage idealMath (?t\<lparr>rotation := r\<rparr>) 2 = cssRotate r (63, - 55)" for r
    using rect_turns_on_page [OF sh, of idealMath r 2] by (simp add: k)
  have s: "0 < sin (15 / 100 :: real)"
    using pi_ge_two by (intro sin_gt_zero) simp_all
  have c: "cos (15 / 100 :: real) \<le> 1"
    by simp
  have "snd (seatMarkerOnPage idealMath (?t\<lparr>rotation := 15 / 100\<rparr>) 2) =
      63 * sin (15 / 100) - 55 * cos (15 / 100)"
    unfolding pg by (simp add: cssRotate_def)
  with s c have b: "- 55 < snd (seatMarkerOnPage idealMath (?t\<lparr>rotation := 15 / 100\<rparr>) 2)"
    by linarith
  have q: "seatMarkerOnPage idealMath (?t\<lparr>rotation := pi / 2\<rparr>) 2 = (55, 63)"
    unfolding pg by (simp add: cssRotate_def)
  from sh a b q show ?thesis by (intro conjI)
qed

section \<open>Guests by table and the CSV export\<close>

text \<open>
  \<^verbatim>\<open>guestsByTable\<close>: a copy of the tables sorted by number (\<^verbatim>\<open>Array.prototype.sort\<close> is
  stable, as is \<open>sort_key\<close>), each with its seats in chair order, numbered from 1, and
  the guest the chair's reference resolves to.
\<close>

record Seat =
  seat_chairId :: string
  seatNumber :: nat
  seat_guest :: "Guest option"

record TableView =
  view_tableId :: string
  view_tableNumber :: real
  view_shape :: TableShape
  view_isVip :: bool
  view_seats :: "Seat list"

definition tableView :: "Guest list \<Rightarrow> TableModel \<Rightarrow> TableView" where
  "tableView gs t =
     \<lparr>view_tableId = table_id t, view_tableNumber = number t, view_shape = shape t,
      view_isVip = (case isVip t of None \<Rightarrow> False | Some b \<Rightarrow> b),
      view_seats =
        map (\<lambda>(i, c).
           \<lparr>seat_chairId = chair_id c, seatNumber = i + 1,
            seat_guest = (if truthy (guestId c)
                          then find (\<lambda>g. Some (guest_id g) = guestId c) gs
                          else None)\<rparr>)
          (enumerate 0 (chairs t))\<rparr>"

definition guestsByTable :: "Plan \<Rightarrow> TableView list" where
  "guestsByTable s = map (tableView (guests s)) (sort_key number (tables s))"

definition gender_string :: "GuestGender \<Rightarrow> string" where
  "gender_string g = (case g of Female \<Rightarrow> ''female'' | Male \<Rightarrow> ''male'')"

text \<open>
  \<^verbatim>\<open>escapeCsvCell\<close>: the test is the regular expression \<^verbatim>\<open>/[",\r\n]/\<close>; the characters are
  the double quote (0x22), the comma, carriage return (0x0D) and line feed (0x0A).
\<close>

definition needsQuoting :: "string \<Rightarrow> bool" where
  "needsQuoting v = (\<exists>c \<in> set v. c = CHR 0x22 \<or> c = CHR '','' \<or> c = CHR 0x0D \<or> c = CHR 0x0A)"

definition doubleQuotes :: "string \<Rightarrow> string" where
  "doubleQuotes v = concat (map (\<lambda>c. if c = CHR 0x22 then [CHR 0x22, CHR 0x22] else [c]) v)"

definition escapeCsvCell :: "string \<Rightarrow> string" where
  "escapeCsvCell v = (if needsQuoting v then [CHR 0x22] @ doubleQuotes v @ [CHR 0x22] else v)"

text \<open>\<^verbatim>\<open>Array.prototype.join\<close>.\<close>

fun join :: "string \<Rightarrow> string list \<Rightarrow> string" where
  "join sep [] = []"
| "join sep [x] = x"
| "join sep (x # y # ys) = x @ sep @ join sep (y # ys)"

definition csvHeaders :: "string list" where
  "csvHeaders = [''Table Number'', ''VIP'', ''Seat'', ''Guest Name'', ''Gender'']"

text \<open>
  The rows of \<^verbatim>\<open>exportToCsv\<close>. \<^verbatim>\<open>String(tableNumber)\<close> is JavaScript's conversion of a
  number to a string: the decimal numeral for a natural number below \<open>10\<^sup>2\<^sup>1\<close>, something
  else for larger, negative or fractional numbers (\<^verbatim>\<open>1e+21\<close>, \<^verbatim>\<open>-3\<close>, \<^verbatim>\<open>2.5\<close>), all of which
  the table number input accepts. The conversion is a parameter \<open>numberToString\<close> of the
  export, and nothing is assumed of it; \<open>decimalString\<close> is the conversion on the
  natural numbers below \<open>10\<^sup>2\<^sup>1\<close>, for the examples. A seat number is an index of an array
  plus one, so its conversion is the decimal numeral.
\<close>

definition decimalString :: "real \<Rightarrow> string" where
  "decimalString x = String_of_nat (nat \<lfloor>x\<rfloor>)"

definition seatRow :: "(real \<Rightarrow> string) \<Rightarrow> TableView \<Rightarrow> Seat \<Rightarrow> string list" where
  "seatRow numberToString tv st =
     [numberToString (view_tableNumber tv),
      (if view_isVip tv then ''Yes'' else ''''),
      String_of_nat (seatNumber st),
      (case seat_guest st of Some g \<Rightarrow> guest_name g | None \<Rightarrow> ''''),
      (case seat_guest st of Some g \<Rightarrow> gender_string (gender g) | None \<Rightarrow> '''')]"

definition unassignedRow :: "Guest \<Rightarrow> string list" where
  "unassignedRow g = ['''', '''', '''', guest_name g, gender_string (gender g)]"

text \<open>The \<^verbatim>\<open>rows\<close> array of \<^verbatim>\<open>exportToCsv\<close>, and the text it is joined into.\<close>

definition csvRows :: "(real \<Rightarrow> string) \<Rightarrow> Plan \<Rightarrow> string list list" where
  "csvRows numberToString s =
     [csvHeaders] @
     concat (map (\<lambda>tv. map (seatRow numberToString tv) (view_seats tv)) (guestsByTable s)) @
     map unassignedRow (unassignedGuests s)"

definition exportToCsv :: "(real \<Rightarrow> string) \<Rightarrow> Plan \<Rightarrow> string" where
  "exportToCsv numberToString s =
     join [CHR 0x0D, CHR 0x0A]
       (map (\<lambda>row. join '','' (map escapeCsvCell row)) (csvRows numberToString s))"

definition csvDemoPlan :: Plan where
  "csvDemoPlan =
     \<lparr>guests = [mkGuest ''g1'' ''Ava Johnson'' Female, mkGuest ''g2'' ''Noah, Williams'' Male],
      tables = [\<lparr>table_id = ''t1'', number = 1, label = None, shape = Round, numberStyle = Classic,
                 isVip = Some True, pos_x = 240, pos_y = 210, rotation = 0,
                 chairs = [\<lparr>chair_id = ''t1c1'', guestId = Some ''g1''\<rparr>,
                           \<lparr>chair_id = ''t1c2'', guestId = None\<rparr>]\<rparr>],
      selectedTableId = Some ''t1'', stageSize = (800, 600), pan = (0, 0), tool = PanTool,
      snapToGrid = True\<rparr>"

text \<open>
  A second plan for the examples: two tables listed out of order of their numbers, a
  seated guest whose name contains double quotes, and an unassigned guest whose name
  contains a comma.
\<close>

definition quotedName :: string where
  "quotedName = ''Ava '' @ [CHR 0x22] @ ''AJ'' @ [CHR 0x22] @ '' Johnson''"

definition csvQuotePlan :: Plan where
  "csvQuotePlan =
     \<lparr>guests = [mkGuest ''g1'' quotedName Female, mkGuest ''g2'' ''Noah, Williams'' Male],
      tables = [\<lparr>table_id = ''t2'', number = 2, label = None, shape = Rect, numberStyle = Modern,
                 isVip = Some True, pos_x = 520, pos_y = 260, rotation = 0,
                 chairs = [\<lparr>chair_id = ''t2c1'', guestId = None\<rparr>,
                           \<lparr>chair_id = ''t2c2'', guestId = None\<rparr>]\<rparr>,
                \<lparr>table_id = ''t1'', number = 1, label = None, shape = Round, numberStyle = Classic,
                 isVip = None, pos_x = 240, pos_y = 210, rotation = 0,
                 chairs = [\<lparr>chair_id = ''t1c1'', guestId = None\<rparr>,
                           \<lparr>chair_id = ''t1c2'', guestId = Some ''g1''\<rparr>]\<rparr>],
      selectedTableId = None, stageSize = (800, 600), pan = (0, 0), tool = PanTool,
      snapToGrid = True\<rparr>"

subsection \<open>A reader of the CSV format\<close>

text \<open>
  What the quoting is for is stated with a reader of the format; the reader is not part
  of the program. It follows the grammar of RFC 4180: a file is records separated by
  CR LF, a record is fields separated by commas, a field is either a run of characters
  other than double quote, comma, CR and LF, or a double-quoted run in which any
  character may occur and a double quote is written twice. The end of the input ends
  the last field and record. Anything else is refused (\<open>None\<close>).

  The reader is a machine that consumes one character at a time; its state is where it
  stands in a field, the fields of the record read so far and the characters of the
  field read so far.
\<close>

datatype CsvState = FieldStart | Unquoted | Quoted | QuoteSeen | CrSeen

fun readCsvFrom :: "CsvState \<Rightarrow> string list \<Rightarrow> string \<Rightarrow> string \<Rightarrow> string list list option" where
  "readCsvFrom st row cell [] =
     (if st = Quoted \<or> st = CrSeen then None else Some [row @ [cell]])"
| "readCsvFrom st row cell (c # cs) =
     (case st of
        FieldStart \<Rightarrow>
          (if c = CHR 0x22 then readCsvFrom Quoted row [] cs
           else if c = CHR '','' then readCsvFrom FieldStart (row @ [cell]) [] cs
           else if c = CHR 0x0D then readCsvFrom CrSeen row cell cs
           else if c = CHR 0x0A then None
           else readCsvFrom Unquoted row [c] cs)
      | Unquoted \<Rightarrow>
          (if c = CHR 0x22 then None
           else if c = CHR '','' then readCsvFrom FieldStart (row @ [cell]) [] cs
           else if c = CHR 0x0D then readCsvFrom CrSeen row cell cs
           else if c = CHR 0x0A then None
           else readCsvFrom Unquoted row (cell @ [c]) cs)
      | Quoted \<Rightarrow>
          (if c = CHR 0x22 then readCsvFrom QuoteSeen row cell cs
           else readCsvFrom Quoted row (cell @ [c]) cs)
      | QuoteSeen \<Rightarrow>
          (if c = CHR 0x22 then readCsvFrom Quoted row (cell @ [CHR 0x22]) cs
           else if c = CHR '','' then readCsvFrom FieldStart (row @ [cell]) [] cs
           else if c = CHR 0x0D then readCsvFrom CrSeen row cell cs
           else None)
      | CrSeen \<Rightarrow>
          (if c = CHR 0x0A
           then map_option (\<lambda>rows. (row @ [cell]) # rows) (readCsvFrom FieldStart [] [] cs)
           else None))"

definition readCsv :: "string \<Rightarrow> string list list option" where
  "readCsv input = readCsvFrom FieldStart [] [] input"

text \<open>The state in which the reader stands after the field that \<^verbatim>\<open>escapeCsvCell\<close> writes.\<close>

definition fieldEnd :: "string \<Rightarrow> CsvState" where
  "fieldEnd v = (if needsQuoting v then QuoteSeen else if v = [] then FieldStart else Unquoted)"

lemma map_enumerate_index:
  "map (\<lambda>x. f (fst x)) (enumerate n xs) = map f [n ..< n + length xs]"
proof -
  have "map (\<lambda>x. f (fst x)) (enumerate n xs) = map f (map fst (enumerate n xs))"
    by (simp only: map_map o_def)
  then show ?thesis by (simp only: map_fst_enumerate)
qed

lemma map_enumerate_item:
  "map (\<lambda>x. f (snd x)) (enumerate n xs) = map f xs"
proof -
  have "map (\<lambda>x. f (snd x)) (enumerate n xs) = map f (map snd (enumerate n xs))"
    by (simp only: map_map o_def)
  then show ?thesis by (simp only: map_snd_enumerate)
qed

lemma tableView_seatNumbers:
  "map seatNumber (view_seats (tableView gs t)) = [1 ..< Suc (length (chairs t))]"
  by (simp add: tableView_def o_def split_def map_enumerate_index map_Suc_upt)

lemma tableView_chairIds:
  "map seat_chairId (view_seats (tableView gs t)) = map chair_id (chairs t)"
  by (simp add: tableView_def o_def split_def map_enumerate_item)

lemma tableView_guests:
  "map seat_guest (view_seats (tableView gs t)) =
   map (\<lambda>c. if truthy (guestId c) then find (\<lambda>g. Some (guest_id g) = guestId c) gs else None)
     (chairs t)"
proof -
  have "map seat_guest (view_seats (tableView gs t)) =
        map (\<lambda>x. if truthy (guestId (snd x))
                 then find (\<lambda>g. Some (guest_id g) = guestId (snd x)) gs else None)
          (enumerate 0 (chairs t))"
    by (simp add: tableView_def o_def split_def)
  also have "\<dots> = map (\<lambda>c. if truthy (guestId c)
                 then find (\<lambda>g. Some (guest_id g) = guestId c) gs else None) (chairs t)"
    by (rule map_enumerate_item
        [where f = "\<lambda>c. if truthy (guestId c)
                 then find (\<lambda>g. Some (guest_id g) = guestId c) gs else None"])
  finally show ?thesis .
qed

lemma guestsByTable_sorted: "sorted (map view_tableNumber (guestsByTable s))"
proof -
  have "map view_tableNumber (guestsByTable s) = map number (sort_key number (tables s))"
    by (simp add: guestsByTable_def tableView_def o_def)
  then show ?thesis by (simp only: sorted_sort_key)
qed

lemma guestsByTable_mset:
  "mset (guestsByTable s) = image_mset (tableView (guests s)) (mset (tables s))"
  by (simp add: guestsByTable_def)

lemma guestsByTable_stable:
  "filter (\<lambda>tv. view_tableNumber tv = k) (guestsByTable s) =
   map (tableView (guests s)) (filter (\<lambda>t. number t = k) (tables s))"
proof -
  have "filter (\<lambda>tv. view_tableNumber tv = k) (guestsByTable s) =
        map (tableView (guests s)) (filter (\<lambda>t. number t = k) (sort_key number (tables s)))"
    by (simp add: guestsByTable_def filter_map o_def tableView_def)
  then show ?thesis by (simp only: sort_key_stable)
qed

lemma seat_rows_length:
  "length (concat (map (\<lambda>tv. map (seatRow ns tv) (view_seats tv)) (guestsByTable s))) =
   (\<Sum>t\<leftarrow>tables s. length (chairs t))"
proof -
  have "length (concat (map (\<lambda>tv. map (seatRow ns tv) (view_seats tv)) (guestsByTable s))) =
        (\<Sum>t\<leftarrow>sort_key number (tables s). length (chairs t))"
    by (simp add: guestsByTable_def length_concat o_def tableView_def)
  also have "\<dots> = sum_mset (image_mset (\<lambda>t. length (chairs t)) (mset (sort_key number (tables s))))"
    by (metis mset_map sum_mset_sum_list)
  also have "\<dots> = sum_mset (image_mset (\<lambda>t. length (chairs t)) (mset (tables s)))"
    by (simp only: mset_sort)
  also have "\<dots> = (\<Sum>t\<leftarrow>tables s. length (chairs t))"
    by (metis mset_map sum_mset_sum_list)
  finally show ?thesis .
qed

lemma csvRows_length:
  "length (csvRows ns s) = 1 + (\<Sum>t\<leftarrow>tables s. length (chairs t)) + length (unassignedGuests s)"
  unfolding csvRows_def length_append seat_rows_length by simp

lemma csvRows_cells: "\<forall>row \<in> set (csvRows ns s). length row = 5"
  by (auto simp: csvRows_def csvHeaders_def seatRow_def unassignedRow_def)

lemma doubleQuotes_Nil: "doubleQuotes [] = []"
  by (simp add: doubleQuotes_def)

lemma doubleQuotes_Cons:
  "doubleQuotes (c # v) = (if c = CHR 0x22 then [CHR 0x22, CHR 0x22] else [c]) @ doubleQuotes v"
  by (simp add: doubleQuotes_def)

lemma doubleQuotes_count: "count_list (doubleQuotes v) (CHR 0x22) = 2 * count_list v (CHR 0x22)"
  by (induction v) (simp_all add: doubleQuotes_def)

lemma doubleQuotes_others:
  "filter (\<lambda>c. c \<noteq> CHR 0x22) (doubleQuotes v) = filter (\<lambda>c. c \<noteq> CHR 0x22) v"
  by (induction v) (simp_all add: doubleQuotes_def)

subsection \<open>Reading back what the export writes\<close>

lemma read_unquoted:
  "\<not> needsQuoting v \<Longrightarrow>
   readCsvFrom Unquoted row cell (v @ rest) = readCsvFrom Unquoted row (cell @ v) rest"
proof (induction v arbitrary: cell)
  case Nil
  show ?case by simp
next
  case (Cons c v)
  from Cons.prems have c: "c \<noteq> CHR 0x22" "c \<noteq> CHR '',''" "c \<noteq> CHR 0x0D" "c \<noteq> CHR 0x0A"
    and v: "\<not> needsQuoting v"
    by (simp_all add: needsQuoting_def)
  have "readCsvFrom Unquoted row cell ((c # v) @ rest) =
        readCsvFrom Unquoted row (cell @ [c]) (v @ rest)"
    using c by simp
  also have "\<dots> = readCsvFrom Unquoted row ((cell @ [c]) @ v) rest"
    using v by (rule Cons.IH)
  finally show ?case by simp
qed

lemma read_quoted:
  "readCsvFrom Quoted row cell (doubleQuotes v @ rest) = readCsvFrom Quoted row (cell @ v) rest"
proof (induction v arbitrary: cell)
  case Nil
  show ?case by (simp add: doubleQuotes_Nil)
next
  case (Cons c v)
  show ?case
  proof (cases "c = CHR 0x22")
    case True
    have "readCsvFrom Quoted row cell (doubleQuotes (c # v) @ rest) =
          readCsvFrom Quoted row (cell @ [CHR 0x22]) (doubleQuotes v @ rest)"
      using True by (simp add: doubleQuotes_Cons)
    also have "\<dots> = readCsvFrom Quoted row ((cell @ [CHR 0x22]) @ v) rest"
      by (rule Cons.IH)
    finally show ?thesis using True by simp
  next
    case False
    have "readCsvFrom Quoted row cell (doubleQuotes (c # v) @ rest) =
          readCsvFrom Quoted row (cell @ [c]) (doubleQuotes v @ rest)"
      using False by (simp add: doubleQuotes_Cons)
    also have "\<dots> = readCsvFrom Quoted row ((cell @ [c]) @ v) rest"
      by (rule Cons.IH)
    finally show ?thesis by simp
  qed
qed

lemma read_field:
  "readCsvFrom FieldStart row [] (escapeCsvCell v @ rest) = readCsvFrom (fieldEnd v) row v rest"
proof (cases "needsQuoting v")
  case True
  have "readCsvFrom FieldStart row [] (escapeCsvCell v @ rest) =
        readCsvFrom Quoted row [] (doubleQuotes v @ CHR 0x22 # rest)"
    using True by (simp add: escapeCsvCell_def)
  also have "\<dots> = readCsvFrom Quoted row ([] @ v) (CHR 0x22 # rest)"
    by (rule read_quoted)
  also have "\<dots> = readCsvFrom QuoteSeen row v rest"
    by simp
  finally show ?thesis using True by (simp add: fieldEnd_def)
next
  case False
  show ?thesis
  proof (cases v)
    case Nil
    then show ?thesis using False by (simp add: escapeCsvCell_def fieldEnd_def)
  next
    case (Cons c w)
    from False Cons have c: "c \<noteq> CHR 0x22" "c \<noteq> CHR '',''" "c \<noteq> CHR 0x0D" "c \<noteq> CHR 0x0A"
      and w: "\<not> needsQuoting w"
      by (simp_all add: needsQuoting_def)
    have "readCsvFrom FieldStart row [] (escapeCsvCell v @ rest) =
          readCsvFrom Unquoted row [c] (w @ rest)"
      using False Cons c by (simp add: escapeCsvCell_def)
    also have "\<dots> = readCsvFrom Unquoted row ([c] @ w) rest"
      using w by (rule read_unquoted)
    finally show ?thesis using False Cons by (simp add: fieldEnd_def)
  qed
qed

lemma fieldEnd_cases: "fieldEnd v = FieldStart \<or> fieldEnd v = Unquoted \<or> fieldEnd v = QuoteSeen"
  by (simp add: fieldEnd_def)

lemma read_comma:
  "readCsvFrom (fieldEnd v) row cell (CHR '','' # rest) = readCsvFrom FieldStart (row @ [cell]) [] rest"
  using fieldEnd_cases [of v] by auto

lemma read_crlf:
  "readCsvFrom (fieldEnd v) row cell (CHR 0x0D # CHR 0x0A # rest) =
   map_option (\<lambda>rows. (row @ [cell]) # rows) (readCsvFrom FieldStart [] [] rest)"
  using fieldEnd_cases [of v] by auto

lemma read_end: "readCsvFrom (fieldEnd v) row cell [] = Some [row @ [cell]]"
  using fieldEnd_cases [of v] by auto

lemma read_record:
  "cells \<noteq> [] \<Longrightarrow>
   readCsvFrom FieldStart row [] (join '','' (map escapeCsvCell cells) @ rest) =
   readCsvFrom (fieldEnd (last cells)) (row @ butlast cells) (last cells) rest"
proof (induction cells arbitrary: row)
  case Nil
  then show ?case by simp
next
  case (Cons x xs)
  show ?case
  proof (cases xs)
    case Nil
    then show ?thesis by (simp add: read_field)
  next
    case (Cons y ys)
    have "readCsvFrom FieldStart row [] (join '','' (map escapeCsvCell (x # xs)) @ rest) =
          readCsvFrom FieldStart row []
            (escapeCsvCell x @ CHR '','' # join '','' (map escapeCsvCell xs) @ rest)"
      unfolding Cons by simp
    also have "\<dots> = readCsvFrom (fieldEnd x) row x (CHR '','' # join '','' (map escapeCsvCell xs) @ rest)"
      by (rule read_field)
    also have "\<dots> = readCsvFrom FieldStart (row @ [x]) [] (join '','' (map escapeCsvCell xs) @ rest)"
      by (rule read_comma)
    also have "\<dots> = readCsvFrom (fieldEnd (last xs)) ((row @ [x]) @ butlast xs) (last xs) rest"
      by (rule Cons.IH) (simp add: Cons)
    finally show ?thesis unfolding Cons by simp
  qed
qed

lemma read_records:
  "rows \<noteq> [] \<Longrightarrow> \<forall>row \<in> set rows. row \<noteq> [] \<Longrightarrow>
   readCsv (join [CHR 0x0D, CHR 0x0A] (map (\<lambda>row. join '','' (map escapeCsvCell row)) rows)) =
   Some rows"
proof (induction rows)
  case Nil
  then show ?case by simp
next
  case (Cons r rs)
  from Cons.prems have r: "r \<noteq> []" and rs: "\<forall>row \<in> set rs. row \<noteq> []"
    by simp_all
  let ?line = "\<lambda>row. join '','' (map escapeCsvCell row)"
  show ?case
  proof (cases rs)
    case Nil
    have "readCsv (join [CHR 0x0D, CHR 0x0A] (map ?line (r # rs))) =
          readCsvFrom FieldStart [] [] (?line r @ [])"
      unfolding Nil readCsv_def by simp
    also have "\<dots> = readCsvFrom (fieldEnd (last r)) ([] @ butlast r) (last r) []"
      using r by (rule read_record)
    also have "\<dots> = Some [([] @ butlast r) @ [last r]]"
      by (rule read_end)
    finally show ?thesis using r unfolding Nil by simp
  next
    case (Cons q qs)
    have ne: "rs \<noteq> []"
      unfolding Cons by simp
    have ih: "readCsvFrom FieldStart [] [] (join [CHR 0x0D, CHR 0x0A] (map ?line rs)) = Some rs"
      using Cons.IH [OF ne rs] unfolding readCsv_def .
    have "readCsv (join [CHR 0x0D, CHR 0x0A] (map ?line (r # rs))) =
          readCsvFrom FieldStart [] []
            (?line r @ CHR 0x0D # CHR 0x0A # join [CHR 0x0D, CHR 0x0A] (map ?line rs))"
      unfolding Cons readCsv_def by simp
    also have "\<dots> = readCsvFrom (fieldEnd (last r)) ([] @ butlast r) (last r)
            (CHR 0x0D # CHR 0x0A # join [CHR 0x0D, CHR 0x0A] (map ?line rs))"
      using r by (rule read_record)
    also have "\<dots> = map_option (\<lambda>rows. (([] @ butlast r) @ [last r]) # rows)
            (readCsvFrom FieldStart [] [] (join [CHR 0x0D, CHR 0x0A] (map ?line rs)))"
      by (rule read_crlf)
    finally show ?thesis using r unfolding ih by simp
  qed
qed

lemma exportToCsv_read_back: "readCsv (exportToCsv ns s) = Some (csvRows ns s)"
proof -
  have ne: "csvRows ns s \<noteq> []"
    by (simp add: csvRows_def)
  have cells: "\<forall>row \<in> set (csvRows ns s). row \<noteq> []"
    using csvRows_cells [of ns s] by auto
  show ?thesis
    unfolding exportToCsv_def using ne cells by (rule read_records)
qed

text \<open>
  Claim C8. The rows of the export are the header, then one row per seat, table by
  table in ascending table number (every table once, tables of equal number in their
  order in the plan) and seat by seat numbered from 1 in chair order, then one row
  per unassigned guest with the table, VIP and seat columns empty; so there are as
  many data rows as chairs plus unassigned guests. The text joins the cells of a row
  with commas and the rows with CR LF. A cell that contains a double quote, a comma, a
  carriage return or a line feed is wrapped in double quotes with every double quote
  in it doubled and nothing else changed; any other cell is emitted as it is. So a
  reader of the format reads the rows back from the text, cell by cell. This holds
  whatever string the platform makes of a table number.
\<close>

theorem exportToCsv_rows:
  "csvRows ns s =
     csvHeaders # concat (map (\<lambda>tv. map (seatRow ns tv) (view_seats tv)) (guestsByTable s)) @
     map unassignedRow (unassignedGuests s) \<and>
   length (csvRows ns s) = 1 + (\<Sum>t\<leftarrow>tables s. length (chairs t)) + length (unassignedGuests s) \<and>
   sorted (map view_tableNumber (guestsByTable s)) \<and>
   mset (guestsByTable s) = image_mset (tableView (guests s)) (mset (tables s)) \<and>
   (\<forall>k. filter (\<lambda>tv. view_tableNumber tv = k) (guestsByTable s) =
        map (tableView (guests s)) (filter (\<lambda>t. number t = k) (tables s))) \<and>
   (\<forall>t. map seatNumber (view_seats (tableView (guests s) t)) = [1 ..< Suc (length (chairs t))] \<and>
        map seat_chairId (view_seats (tableView (guests s) t)) = map chair_id (chairs t) \<and>
        map seat_guest (view_seats (tableView (guests s) t)) =
          map (\<lambda>c. if truthy (guestId c) then find (\<lambda>g. Some (guest_id g) = guestId c) (guests s)
                   else None) (chairs t)) \<and>
   (\<forall>tv st. seatRow ns tv st ! 0 = ns (view_tableNumber tv) \<and>
            seatRow ns tv st ! 2 = String_of_nat (seatNumber st) \<and>
            seatRow ns tv st ! 3 = (case seat_guest st of Some g \<Rightarrow> guest_name g | None \<Rightarrow> '''')) \<and>
   (\<forall>g. take 3 (unassignedRow g) = ['''', '''', ''''] \<and>
        drop 3 (unassignedRow g) = [guest_name g, gender_string (gender g)]) \<and>
   exportToCsv ns s =
     join [CHR 0x0D, CHR 0x0A] (map (\<lambda>row. join '','' (map escapeCsvCell row)) (csvRows ns s)) \<and>
   (\<forall>v. escapeCsvCell v =
        (if CHR 0x22 \<in> set v \<or> CHR '','' \<in> set v \<or> CHR 0x0D \<in> set v \<or> CHR 0x0A \<in> set v
         then [CHR 0x22] @ doubleQuotes v @ [CHR 0x22] else v)) \<and>
   (\<forall>v. count_list (doubleQuotes v) (CHR 0x22) = 2 * count_list v (CHR 0x22) \<and>
        filter (\<lambda>c. c \<noteq> CHR 0x22) (doubleQuotes v) = filter (\<lambda>c. c \<noteq> CHR 0x22) v) \<and>
   doubleQuotes [] = [] \<and>
   (\<forall>c v. doubleQuotes (c # v) =
          (if c = CHR 0x22 then [CHR 0x22, CHR 0x22] else [c]) @ doubleQuotes v) \<and>
   readCsv (exportToCsv ns s) = Some (csvRows ns s)"
proof -
  have rows: "csvRows ns s =
     csvHeaders # concat (map (\<lambda>tv. map (seatRow ns tv) (view_seats tv)) (guestsByTable s)) @
     map unassignedRow (unassignedGuests s)"
    by (simp add: csvRows_def)
  have stable: "\<forall>k. filter (\<lambda>tv. view_tableNumber tv = k) (guestsByTable s) =
        map (tableView (guests s)) (filter (\<lambda>t. number t = k) (tables s))"
    by (simp only: guestsByTable_stable simp_thms)
  have views: "\<forall>t. map seatNumber (view_seats (tableView (guests s) t)) = [1 ..< Suc (length (chairs t))] \<and>
        map seat_chairId (view_seats (tableView (guests s) t)) = map chair_id (chairs t) \<and>
        map seat_guest (view_seats (tableView (guests s) t)) =
          map (\<lambda>c. if truthy (guestId c) then find (\<lambda>g. Some (guest_id g) = guestId c) (guests s)
                   else None) (chairs t)"
    by (simp only: tableView_seatNumbers tableView_chairIds tableView_guests simp_thms)
  have cols: "\<forall>tv st. seatRow ns tv st ! 0 = ns (view_tableNumber tv) \<and>
            seatRow ns tv st ! 2 = String_of_nat (seatNumber st) \<and>
            seatRow ns tv st ! 3 = (case seat_guest st of Some g \<Rightarrow> guest_name g | None \<Rightarrow> '''')"
    by (simp add: seatRow_def)
  have empty: "\<forall>g. take 3 (unassignedRow g) = ['''', '''', ''''] \<and>
        drop 3 (unassignedRow g) = [guest_name g, gender_string (gender g)]"
    by (simp add: unassignedRow_def)
  have joined: "exportToCsv ns s =
     join [CHR 0x0D, CHR 0x0A] (map (\<lambda>row. join '','' (map escapeCsvCell row)) (csvRows ns s))"
    by (simp add: exportToCsv_def)
  have esc: "\<forall>v. escapeCsvCell v =
        (if CHR 0x22 \<in> set v \<or> CHR '','' \<in> set v \<or> CHR 0x0D \<in> set v \<or> CHR 0x0A \<in> set v
         then [CHR 0x22] @ doubleQuotes v @ [CHR 0x22] else v)"
    by (auto simp: escapeCsvCell_def needsQuoting_def)
  have dbl: "\<forall>v. count_list (doubleQuotes v) (CHR 0x22) = 2 * count_list v (CHR 0x22) \<and>
        filter (\<lambda>c. c \<noteq> CHR 0x22) (doubleQuotes v) = filter (\<lambda>c. c \<noteq> CHR 0x22) v"
    by (simp add: doubleQuotes_count doubleQuotes_others)
  have dcons: "\<forall>c v. doubleQuotes (c # v) =
          (if c = CHR 0x22 then [CHR 0x22, CHR 0x22] else [c]) @ doubleQuotes v"
    by (simp only: doubleQuotes_Cons simp_thms)
  show ?thesis
    by (rule conjI [OF rows conjI [OF csvRows_length conjI [OF guestsByTable_sorted
          conjI [OF guestsByTable_mset conjI [OF stable conjI [OF views conjI [OF cols
          conjI [OF empty conjI [OF joined conjI [OF esc conjI [OF dbl
          conjI [OF doubleQuotes_Nil conjI [OF dcons exportToCsv_read_back]]]]]]]]]]]]])
qed

text \<open>
  Witness for claim C8. The example of the specification: one table with two seats,
  one of them assigned, and one unassigned guest (whose name contains a comma) give
  three data rows after the header, the last with empty table, VIP and seat columns;
  in the text the name with the comma is quoted, the other is not. In the second plan
  table 2 is listed before table 1 and a seated guest is named \<^verbatim>\<open>Ava "AJ" Johnson\<close>: the
  rows of table 1 come first, the name is written \<^verbatim>\<open>"Ava ""AJ"" Johnson"\<close>, and the reader
  returns the rows from the text.
\<close>

theorem exportToCsv_rows_witness:
  "length (csvRows decimalString csvDemoPlan) = 4 \<and>
   csvRows decimalString csvDemoPlan =
     [csvHeaders,
      [''1'', ''Yes'', ''1'', ''Ava Johnson'', ''female''],
      [''1'', ''Yes'', ''2'', '''', ''''],
      ['''', '''', '''', ''Noah, Williams'', ''male'']] \<and>
   exportToCsv decimalString csvDemoPlan =
     ''Table Number,VIP,Seat,Guest Name,Gender'' @ [CHR 0x0D, CHR 0x0A] @
     ''1,Yes,1,Ava Johnson,female'' @ [CHR 0x0D, CHR 0x0A] @
     ''1,Yes,2,,'' @ [CHR 0x0D, CHR 0x0A] @
     '',,,'' @ [CHR 0x22] @ ''Noah, Williams'' @ [CHR 0x22] @ '',male'' \<and>
   escapeCsvCell ''Noah, Williams'' = [CHR 0x22] @ ''Noah, Williams'' @ [CHR 0x22] \<and>
   escapeCsvCell ''Ava Johnson'' = ''Ava Johnson'' \<and>
   escapeCsvCell quotedName =
     [CHR 0x22] @ ''Ava '' @ [CHR 0x22, CHR 0x22] @ ''AJ'' @ [CHR 0x22, CHR 0x22] @ '' Johnson'' @
     [CHR 0x22] \<and>
   map view_tableNumber (guestsByTable csvQuotePlan) = [1, 2] \<and>
   csvRows decimalString csvQuotePlan =
     [csvHeaders,
      [''1'', '''', ''1'', '''', ''''],
      [''1'', '''', ''2'', quotedName, ''female''],
      [''2'', ''Yes'', ''1'', '''', ''''],
      [''2'', ''Yes'', ''2'', '''', ''''],
      ['''', '''', '''', ''Noah, Williams'', ''male'']] \<and>
   exportToCsv decimalString csvQuotePlan =
     ''Table Number,VIP,Seat,Guest Name,Gender'' @ [CHR 0x0D, CHR 0x0A] @
     ''1,,1,,'' @ [CHR 0x0D, CHR 0x0A] @
     ''1,,2,'' @ [CHR 0x22] @ ''Ava '' @ [CHR 0x22, CHR 0x22] @ ''AJ'' @ [CHR 0x22, CHR 0x22] @
       '' Johnson'' @ [CHR 0x22] @ '',female'' @ [CHR 0x0D, CHR 0x0A] @
     ''2,Yes,1,,'' @ [CHR 0x0D, CHR 0x0A] @
     ''2,Yes,2,,'' @ [CHR 0x0D, CHR 0x0A] @
     '',,,'' @ [CHR 0x22] @ ''Noah, Williams'' @ [CHR 0x22] @ '',male'' \<and>
   readCsv (''1,,2,'' @ [CHR 0x22] @ ''Ava '' @ [CHR 0x22, CHR 0x22] @ ''AJ'' @
       [CHR 0x22, CHR 0x22] @ '' Johnson'' @ [CHR 0x22] @ '',female'' @ [CHR 0x0D, CHR 0x0A] @
       '',,,'' @ [CHR 0x22] @ ''Noah, Williams'' @ [CHR 0x22] @ '',male'') =
     Some [[''1'', '''', ''2'', quotedName, ''female''],
           ['''', '''', '''', ''Noah, Williams'', ''male'']] \<and>
   readCsv (exportToCsv decimalString csvQuotePlan) =
     Some [csvHeaders,
      [''1'', '''', ''1'', '''', ''''],
      [''1'', '''', ''2'', quotedName, ''female''],
      [''2'', ''Yes'', ''1'', '''', ''''],
      [''2'', ''Yes'', ''2'', '''', ''''],
      ['''', '''', '''', ''Noah, Williams'', ''male'']]"
proof -
  note th = exportToCsv_rows [where s = csvDemoPlan and ns = decimalString]
  note tq = exportToCsv_rows [where s = csvQuotePlan and ns = decimalString]
  have one: "decimalString 1 = ''1''" and two: "decimalString 2 = ''2''"
    by (simp_all add: decimalString_def String_of_nat.simps)
  have s1: "String_of_nat 1 = ''1''" and s2: "String_of_nat 2 = ''2''"
    and s1': "String_of_nat (Suc 0) = ''1''"
    by (simp_all add: String_of_nat.simps)
  have u: "unassignedGuests csvDemoPlan = [mkGuest ''g2'' ''Noah, Williams'' Male]"
    by (simp add: unassignedGuests_def assigned_def csvDemoPlan_def mkGuest_def)
  have n: "(\<Sum>t\<leftarrow>tables csvDemoPlan. length (chairs t)) = 2"
    by (simp add: csvDemoPlan_def)
  from th have "length (csvRows decimalString csvDemoPlan) =
      1 + (\<Sum>t\<leftarrow>tables csvDemoPlan. length (chairs t)) + length (unassignedGuests csvDemoPlan)"
    by (elim conjE)
  then have a: "length (csvRows decimalString csvDemoPlan) = 4"
    unfolding u n by simp
  have v: "guestsByTable csvDemoPlan =
      [\<lparr>view_tableId = ''t1'', view_tableNumber = 1, view_shape = Round, view_isVip = True,
        view_seats = [\<lparr>seat_chairId = ''t1c1'', seatNumber = 1,
                        seat_guest = Some (mkGuest ''g1'' ''Ava Johnson'' Female)\<rparr>,
                      \<lparr>seat_chairId = ''t1c2'', seatNumber = 2, seat_guest = None\<rparr>]\<rparr>]"
    by (simp add: guestsByTable_def tableView_def csvDemoPlan_def mkGuest_def truthy_def enumerate_eq_zip)
  from th have "csvRows decimalString csvDemoPlan =
     csvHeaders # concat (map (\<lambda>tv. map (seatRow decimalString tv) (view_seats tv)) (guestsByTable csvDemoPlan)) @
     map unassignedRow (unassignedGuests csvDemoPlan)"
    by (elim conjE)
  then have b: "csvRows decimalString csvDemoPlan =
     [csvHeaders,
      [''1'', ''Yes'', ''1'', ''Ava Johnson'', ''female''],
      [''1'', ''Yes'', ''2'', '''', ''''],
      ['''', '''', '''', ''Noah, Williams'', ''male'']]"
    unfolding u v
    by (simp add: seatRow_def unassignedRow_def mkGuest_def gender_string_def one s1 s2 s1')
  from th have e: "\<forall>v. escapeCsvCell v =
        (if CHR 0x22 \<in> set v \<or> CHR '','' \<in> set v \<or> CHR 0x0D \<in> set v \<or> CHR 0x0A \<in> set v
         then [CHR 0x22] @ doubleQuotes v @ [CHR 0x22] else v)"
    by (elim conjE)
  from th have d0: "doubleQuotes [] = []"
    by (elim conjE)
  from th have dc: "\<forall>c v. doubleQuotes (c # v) =
          (if c = CHR 0x22 then [CHR 0x22, CHR 0x22] else [c]) @ doubleQuotes v"
    by (elim conjE)
  have c: "escapeCsvCell ''Noah, Williams'' = [CHR 0x22] @ ''Noah, Williams'' @ [CHR 0x22]"
    unfolding e [rule_format] by (simp add: d0 dc [rule_format])
  have d: "escapeCsvCell ''Ava Johnson'' = ''Ava Johnson''"
    unfolding e [rule_format] by simp
  have q: "escapeCsvCell quotedName =
     [CHR 0x22] @ ''Ava '' @ [CHR 0x22, CHR 0x22] @ ''AJ'' @ [CHR 0x22, CHR 0x22] @ '' Johnson'' @
     [CHR 0x22]"
    unfolding e [rule_format] quotedName_def by (simp add: d0 dc [rule_format])
  have plain: "escapeCsvCell ''Table Number'' = ''Table Number''" "escapeCsvCell ''VIP'' = ''VIP''"
    "escapeCsvCell ''Seat'' = ''Seat''" "escapeCsvCell ''Guest Name'' = ''Guest Name''"
    "escapeCsvCell ''Gender'' = ''Gender''" "escapeCsvCell ''1'' = ''1''" "escapeCsvCell ''2'' = ''2''"
    "escapeCsvCell ''Yes'' = ''Yes''" "escapeCsvCell '''' = ''''"
    "escapeCsvCell ''female'' = ''female''" "escapeCsvCell ''male'' = ''male''"
    unfolding e [rule_format] by simp_all
  from th have "exportToCsv decimalString csvDemoPlan =
     join [CHR 0x0D, CHR 0x0A]
       (map (\<lambda>row. join '','' (map escapeCsvCell row)) (csvRows decimalString csvDemoPlan))"
    by (elim conjE)
  then have x: "exportToCsv decimalString csvDemoPlan =
     ''Table Number,VIP,Seat,Guest Name,Gender'' @ [CHR 0x0D, CHR 0x0A] @
     ''1,Yes,1,Ava Johnson,female'' @ [CHR 0x0D, CHR 0x0A] @
     ''1,Yes,2,,'' @ [CHR 0x0D, CHR 0x0A] @
     '',,,'' @ [CHR 0x22] @ ''Noah, Williams'' @ [CHR 0x22] @ '',male''"
    unfolding b csvHeaders_def by (simp add: plain c d)
  have uq: "unassignedGuests csvQuotePlan = [mkGuest ''g2'' ''Noah, Williams'' Male]"
    by (simp add: unassignedGuests_def assigned_def csvQuotePlan_def mkGuest_def)
  have vq: "guestsByTable csvQuotePlan =
      [\<lparr>view_tableId = ''t1'', view_tableNumber = 1, view_shape = Round, view_isVip = False,
        view_seats = [\<lparr>seat_chairId = ''t1c1'', seatNumber = 1, seat_guest = None\<rparr>,
                      \<lparr>seat_chairId = ''t1c2'', seatNumber = 2,
                        seat_guest = Some (mkGuest ''g1'' quotedName Female)\<rparr>]\<rparr>,
       \<lparr>view_tableId = ''t2'', view_tableNumber = 2, view_shape = Rect, view_isVip = True,
        view_seats = [\<lparr>seat_chairId = ''t2c1'', seatNumber = 1, seat_guest = None\<rparr>,
                      \<lparr>seat_chairId = ''t2c2'', seatNumber = 2, seat_guest = None\<rparr>]\<rparr>]"
    by (simp add: guestsByTable_def tableView_def csvQuotePlan_def mkGuest_def truthy_def enumerate_eq_zip)
  have o: "map view_tableNumber (guestsByTable csvQuotePlan) = [1, 2]"
    unfolding vq by simp
  from tq have "csvRows decimalString csvQuotePlan =
     csvHeaders # concat (map (\<lambda>tv. map (seatRow decimalString tv) (view_seats tv)) (guestsByTable csvQuotePlan)) @
     map unassignedRow (unassignedGuests csvQuotePlan)"
    by (elim conjE)
  then have bq: "csvRows decimalString csvQuotePlan =
     [csvHeaders,
      [''1'', '''', ''1'', '''', ''''],
      [''1'', '''', ''2'', quotedName, ''female''],
      [''2'', ''Yes'', ''1'', '''', ''''],
      [''2'', ''Yes'', ''2'', '''', ''''],
      ['''', '''', '''', ''Noah, Williams'', ''male'']]"
    unfolding uq vq
    by (simp add: seatRow_def unassignedRow_def mkGuest_def gender_string_def one two s1 s2 s1')
  from tq have "exportToCsv decimalString csvQuotePlan =
     join [CHR 0x0D, CHR 0x0A]
       (map (\<lambda>row. join '','' (map escapeCsvCell row)) (csvRows decimalString csvQuotePlan))"
    by (elim conjE)
  then have xq: "exportToCsv decimalString csvQuotePlan =
     ''Table Number,VIP,Seat,Guest Name,Gender'' @ [CHR 0x0D, CHR 0x0A] @
     ''1,,1,,'' @ [CHR 0x0D, CHR 0x0A] @
     ''1,,2,'' @ [CHR 0x22] @ ''Ava '' @ [CHR 0x22, CHR 0x22] @ ''AJ'' @ [CHR 0x22, CHR 0x22] @
       '' Johnson'' @ [CHR 0x22] @ '',female'' @ [CHR 0x0D, CHR 0x0A] @
     ''2,Yes,1,,'' @ [CHR 0x0D, CHR 0x0A] @
     ''2,Yes,2,,'' @ [CHR 0x0D, CHR 0x0A] @
     '',,,'' @ [CHR 0x22] @ ''Noah, Williams'' @ [CHR 0x22] @ '',male''"
    unfolding bq csvHeaders_def by (simp add: plain c q)
  have r: "readCsv (''1,,2,'' @ [CHR 0x22] @ ''Ava '' @ [CHR 0x22, CHR 0x22] @ ''AJ'' @
       [CHR 0x22, CHR 0x22] @ '' Johnson'' @ [CHR 0x22] @ '',female'' @ [CHR 0x0D, CHR 0x0A] @
       '',,,'' @ [CHR 0x22] @ ''Noah, Williams'' @ [CHR 0x22] @ '',male'') =
     Some [[''1'', '''', ''2'', quotedName, ''female''],
           ['''', '''', '''', ''Noah, Williams'', ''male'']]"
    by (simp add: readCsv_def quotedName_def)
  from tq have "readCsv (exportToCsv decimalString csvQuotePlan) =
      Some (csvRows decimalString csvQuotePlan)"
    by (elim conjE)
  then have rq: "readCsv (exportToCsv decimalString csvQuotePlan) =
     Some [csvHeaders,
      [''1'', '''', ''1'', '''', ''''],
      [''1'', '''', ''2'', quotedName, ''female''],
      [''2'', ''Yes'', ''1'', '''', ''''],
      [''2'', ''Yes'', ''2'', '''', ''''],
      ['''', '''', '''', ''Noah, Williams'', ''male'']]"
    unfolding bq .
  show ?thesis
    by (rule conjI [OF a conjI [OF b conjI [OF x conjI [OF c conjI [OF d conjI [OF q
          conjI [OF o conjI [OF bq conjI [OF xq conjI [OF r rq]]]]]]]]]])
qed

section \<open>Saving and loading versions\<close>

subsection \<open>The server's version store\<close>

text \<open>
  \<^verbatim>\<open>server/versionsStorage.ts\<close> keeps one file \<^verbatim>\<open>id.json\<close> per version, holding
  \<^verbatim>\<open>JSON.stringify(full)\<close>. The store is modelled as a map from ids to the stored
  objects (serialising and parsing a guest or table list gives it back), with a flag
  for whether the directory can be written. \<^verbatim>\<open>randomUUID()\<close> and the clock are
  parameters.
\<close>

record VersionPayload =
  payload_name :: string
  payload_guests :: "Guest list"
  payload_tables :: "TableModel list"
  payload_stageSize :: "(real \<times> real) option"
  payload_pan :: "(real \<times> real) option"

record VersionMeta =
  meta_id :: string
  meta_name :: string
  meta_savedAt :: string

record VersionFull =
  full_id :: string
  full_name :: string
  full_savedAt :: string
  full_guests :: "Guest list"
  full_tables :: "TableModel list"
  full_stageSize :: "(real \<times> real) option"
  full_pan :: "(real \<times> real) option"

record Store =
  files :: "string \<rightharpoonup> VersionFull"
  writable :: bool

text \<open>\<^verbatim>\<open>isValidId\<close>: the regular expression \<^verbatim>\<open>/^[a-f0-9-]{36}$/i\<close>.\<close>

definition isValidId :: "string \<Rightarrow> bool" where
  "isValidId i = (length i = 36 \<and> list_all (\<lambda>c. c \<in> set ''abcdefABCDEF0123456789-'') i)"

definition saveVersion :: "string \<Rightarrow> string \<Rightarrow> VersionPayload \<Rightarrow> Store \<Rightarrow> string + (VersionMeta \<times> Store)" where
  "saveVersion newId now payload st =
     (if \<not> writable st then Inl ''Cannot write to the versions directory''
      else
        let full = \<lparr>full_id = newId, full_name = payload_name payload, full_savedAt = now,
                    full_guests = payload_guests payload, full_tables = payload_tables payload,
                    full_stageSize = None, full_pan = None\<rparr>
        in Inr (\<lparr>meta_id = newId, meta_name = payload_name payload, meta_savedAt = now\<rparr>,
                st\<lparr>files := (files st)(newId \<mapsto> full)\<rparr>))"

definition getVersion :: "string \<Rightarrow> Store \<Rightarrow> VersionFull option" where
  "getVersion i st = (if \<not> isValidId i then None else files st i)"

subsection \<open>The routes\<close>

text \<open>
  The body of \<^verbatim>\<open>POST /api/versions\<close> after JSON parsing: \<open>body_name\<close> is present when
  \<^verbatim>\<open>name\<close> is a string, \<open>body_guests\<close> and \<open>body_tables\<close> when they are arrays. The
  handler destructures \<^verbatim>\<open>name\<close>, \<^verbatim>\<open>guests\<close> and \<^verbatim>\<open>tables\<close> only.
\<close>

record PostBody =
  body_name :: "string option"
  body_guests :: "Guest list option"
  body_tables :: "TableModel list option"
  body_stageSize :: "(real \<times> real) option"
  body_pan :: "(real \<times> real) option"

datatype Response = Created VersionMeta | Ok VersionFull | BadRequest string | NotFound string | ServerError string

definition isSpace :: "char \<Rightarrow> bool" where
  "isSpace c = (c \<in> set [CHR '' '', CHR 0x09, CHR 0x0A, CHR 0x0B, CHR 0x0C, CHR 0x0D])"

definition trim :: "string \<Rightarrow> string" where
  "trim v = rev (dropWhile isSpace (rev (dropWhile isSpace v)))"

definition postVersion :: "string \<Rightarrow> string \<Rightarrow> PostBody \<Rightarrow> Store \<Rightarrow> Response \<times> Store" where
  "postVersion newId now body st =
     (case (body_guests body, body_tables body) of
        (Some gs, Some ts) \<Rightarrow>
          (case saveVersion newId now
                  \<lparr>payload_name = (case body_name body of
                                      Some n \<Rightarrow> if trim n \<noteq> [] then trim n else ''Unnamed version''
                                    | None \<Rightarrow> ''Unnamed version''),
                   payload_guests = gs, payload_tables = ts,
                   payload_stageSize = None, payload_pan = None\<rparr> st of
             Inl e \<Rightarrow> (ServerError e, st)
           | Inr (meta, st') \<Rightarrow> (Created meta, st'))
      | _ \<Rightarrow> (BadRequest ''Missing or invalid guests/tables'', st))"

definition getVersionRoute :: "string \<Rightarrow> Store \<Rightarrow> Response" where
  "getVersionRoute i st =
     (case getVersion i st of None \<Rightarrow> NotFound ''Version not found'' | Some v \<Rightarrow> Ok v)"

subsection \<open>The page's save and load actions\<close>

text \<open>
  \<^verbatim>\<open>saveCurrentVersion\<close> with the server as destination posts the guests, the tables,
  the stage size and the pan offset; \<open>versionCount\<close> is the number of versions the
  page knows, used for the default name.
\<close>

definition serverSaveBody :: "string \<Rightarrow> nat \<Rightarrow> Plan \<Rightarrow> PostBody" where
  "serverSaveBody name versionCount s =
     \<lparr>body_name = Some (if trim name \<noteq> [] then trim name
                         else ''Version '' @ String_of_nat (versionCount + 1)),
      body_guests = Some (guests s), body_tables = Some (tables s),
      body_stageSize = Some (stageSize s), body_pan = Some (pan s)\<rparr>"

text \<open>
  \<^verbatim>\<open>calculateStageSize\<close>; \<open>innerWidth\<close> is the window's width. The running minimum and
  maximum start at plus and minus infinity in the source; over a non-empty list that is
  the minimum and maximum of the list.
\<close>

definition tableHalfSize :: "TableModel \<Rightarrow> real \<times> real" where
  "tableHalfSize t = (if shape t = Rect then (126 / 2, 74 / 2) else (98 / 2, 98 / 2))"

definition calculateStageSize :: "real \<Rightarrow> TableModel list \<Rightarrow> real \<times> real" where
  "calculateStageSize innerWidth tablesList =
     (let isMobile = innerWidth < 768 in
      if tablesList = [] then
        (if isMobile then (min 800 (innerWidth - 32), 600) else (1000, 650))
      else
        let padding = (if isMobile then 100 else 200);
            minX = Min (set (map (\<lambda>t. pos_x t - fst (tableHalfSize t)) tablesList));
            minY = Min (set (map (\<lambda>t. pos_y t - snd (tableHalfSize t)) tablesList));
            maxX = Max (set (map (\<lambda>t. pos_x t + fst (tableHalfSize t)) tablesList));
            maxY = Max (set (map (\<lambda>t. pos_y t + snd (tableHalfSize t)) tablesList));
            calculatedW = maxX - minX + padding * 2;
            calculatedH = maxY - minY + padding * 2
        in if isMobile then (max (min 800 (innerWidth - 32)) calculatedW, max 500 calculatedH)
           else (max 800 calculatedW, max 600 calculatedH))"

text \<open>What every load path does with the version it has read.\<close>

definition applyVersion :: "real \<Rightarrow> VersionFull \<Rightarrow> Plan \<Rightarrow> Plan" where
  "applyVersion innerWidth v s =
     s\<lparr>guests := full_guests v, tables := full_tables v,
       selectedTableId := (case full_tables v of [] \<Rightarrow> None | t # _ \<Rightarrow> Some (table_id t)),
       stageSize := (case full_stageSize v of Some sz \<Rightarrow> sz
                     | None \<Rightarrow> calculateStageSize innerWidth (full_tables v)),
       pan := (case full_pan v of Some p \<Rightarrow> p | None \<Rightarrow> (0, 0))\<rparr>"

definition loadServerVersion :: "real \<Rightarrow> string \<Rightarrow> Store \<Rightarrow> Plan \<Rightarrow> Plan" where
  "loadServerVersion innerWidth i st s =
     (case getVersionRoute i st of Ok v \<Rightarrow> applyVersion innerWidth v s | _ \<Rightarrow> s)"

text \<open>
  The other destination: the version list in local storage, newest first, at most 20.
  Here the version object carries the stage size and the pan offset.
\<close>

definition saveLocalVersion :: "string \<Rightarrow> string \<Rightarrow> string \<Rightarrow> nat \<Rightarrow> Plan \<Rightarrow> VersionFull list \<Rightarrow> VersionFull list" where
  "saveLocalVersion newId now name versionCount s prev =
     take 20
       (\<lparr>full_id = newId,
         full_name = (if trim name \<noteq> [] then trim name
                      else ''Version '' @ String_of_nat (versionCount + 1)),
         full_savedAt = now, full_guests = guests s, full_tables = tables s,
         full_stageSize = Some (stageSize s), full_pan = Some (pan s)\<rparr> # prev)"

definition loadLocalVersion :: "real \<Rightarrow> string \<Rightarrow> VersionFull list \<Rightarrow> Plan \<Rightarrow> Plan" where
  "loadLocalVersion innerWidth i savedVersions s =
     (case find (\<lambda>x. full_id x = i) savedVersions of
        None \<Rightarrow> s
      | Some v \<Rightarrow> applyVersion innerWidth v s)"

definition emptyStore :: Store where
  "emptyStore = \<lparr>files = Map.empty, writable = True\<rparr>"

definition movedPlan :: Plan where
  "movedPlan = defaultPlan\<lparr>stageSize := (1200, 900), pan := (40, - 25), tool := SelectTool\<rparr>"

definition sampleUuid :: string where
  "sampleUuid = ''3f2b8c1e-9a4d-4e7b-8c21-5d6f7a8b9c0d''"

definition sampleNow :: string where
  "sampleNow = ''2026-01-01T00:00:00.000Z''"

lemma isValidId_sampleUuid: "isValidId sampleUuid"
  by (simp add: isValidId_def sampleUuid_def)

lemma calculateStageSize_defaultTables: "calculateStageSize 1280 defaultTables = (800, 706)"
  by (simp add: calculateStageSize_def defaultTables_def tableHalfSize_def Let_def)

text \<open>
  What the server stores for a well-formed request, whatever the plan: the guests and
  the tables of the body, and neither the stage size nor the pan offset.
\<close>

lemma postVersion_stores:
  assumes "writable st" and "body_guests body = Some gs" and "body_tables body = Some ts"
    and "isValidId newId"
  shows "\<exists>nm. postVersion newId now body st =
           (Created \<lparr>meta_id = newId, meta_name = nm, meta_savedAt = now\<rparr>,
            st\<lparr>files := (files st)(newId \<mapsto>
               \<lparr>full_id = newId, full_name = nm, full_savedAt = now, full_guests = gs,
                full_tables = ts, full_stageSize = None, full_pan = None\<rparr>)\<rparr>) \<and>
         getVersion newId (snd (postVersion newId now body st)) =
           Some \<lparr>full_id = newId, full_name = nm, full_savedAt = now, full_guests = gs,
                 full_tables = ts, full_stageSize = None, full_pan = None\<rparr>"
  using assms by (simp add: postVersion_def saveVersion_def getVersion_def Let_def)

text \<open>
  Claim C7 on the code. The plan \<open>movedPlan\<close> has stage size 1200 by 900 and pan offset
  (40, -25). Saved to the server and loaded again, guests and tables come back, but
  the stored version has no stage size and no pan offset, so the load falls back to
  the computed stage size 800 by 706 and the pan offset (0, 0). The same plan saved
  to and loaded from local storage comes back with its stage size and pan offset.
\<close>

theorem server_save_load_loses_stage_and_pan:
  "fst (postVersion sampleUuid sampleNow (serverSaveBody ''Plan A'' 0 movedPlan) emptyStore) =
     Created \<lparr>meta_id = sampleUuid, meta_name = ''Plan A'', meta_savedAt = sampleNow\<rparr> \<and>
   getVersion sampleUuid
     (snd (postVersion sampleUuid sampleNow (serverSaveBody ''Plan A'' 0 movedPlan) emptyStore)) =
     Some \<lparr>full_id = sampleUuid, full_name = ''Plan A'', full_savedAt = sampleNow,
           full_guests = guests movedPlan, full_tables = tables movedPlan,
           full_stageSize = None, full_pan = None\<rparr> \<and>
   stageSize movedPlan = (1200, 900) \<and> pan movedPlan = (40, - 25) \<and>
   guests (loadServerVersion 1280 sampleUuid
     (snd (postVersion sampleUuid sampleNow (serverSaveBody ''Plan A'' 0 movedPlan) emptyStore))
     csvDemoPlan) = guests movedPlan \<and>
   tables (loadServerVersion 1280 sampleUuid
     (snd (postVersion sampleUuid sampleNow (serverSaveBody ''Plan A'' 0 movedPlan) emptyStore))
     csvDemoPlan) = tables movedPlan \<and>
   stageSize (loadServerVersion 1280 sampleUuid
     (snd (postVersion sampleUuid sampleNow (serverSaveBody ''Plan A'' 0 movedPlan) emptyStore))
     csvDemoPlan) = (800, 706) \<and>
   pan (loadServerVersion 1280 sampleUuid
     (snd (postVersion sampleUuid sampleNow (serverSaveBody ''Plan A'' 0 movedPlan) emptyStore))
     csvDemoPlan) = (0, 0) \<and>
   stageSize (loadLocalVersion 1280 ''v_1''
     (saveLocalVersion ''v_1'' sampleNow ''Plan A'' 0 movedPlan []) csvDemoPlan) = (1200, 900) \<and>
   pan (loadLocalVersion 1280 ''v_1''
     (saveLocalVersion ''v_1'' sampleNow ''Plan A'' 0 movedPlan []) csvDemoPlan) = (40, - 25)"
proof -
  let ?body = "serverSaveBody ''Plan A'' 0 movedPlan"
  have tr: "trim ''Plan A'' = ''Plan A''"
    by (simp add: trim_def isSpace_def)
  have body: "?body = \<lparr>body_name = Some ''Plan A'', body_guests = Some (guests movedPlan),
      body_tables = Some (tables movedPlan), body_stageSize = Some (1200, 900),
      body_pan = Some (40, - 25)\<rparr>"
    by (simp add: serverSaveBody_def tr movedPlan_def)
  have post: "postVersion sampleUuid sampleNow ?body emptyStore =
      (Created \<lparr>meta_id = sampleUuid, meta_name = ''Plan A'', meta_savedAt = sampleNow\<rparr>,
       emptyStore\<lparr>files := (files emptyStore)(sampleUuid \<mapsto>
          \<lparr>full_id = sampleUuid, full_name = ''Plan A'', full_savedAt = sampleNow,
           full_guests = guests movedPlan, full_tables = tables movedPlan,
           full_stageSize = None, full_pan = None\<rparr>)\<rparr>)"
    unfolding body by (simp add: postVersion_def saveVersion_def emptyStore_def tr Let_def)
  have got: "getVersion sampleUuid (snd (postVersion sampleUuid sampleNow ?body emptyStore)) =
      Some \<lparr>full_id = sampleUuid, full_name = ''Plan A'', full_savedAt = sampleNow,
            full_guests = guests movedPlan, full_tables = tables movedPlan,
            full_stageSize = None, full_pan = None\<rparr>"
    unfolding post by (simp add: getVersion_def isValidId_sampleUuid)
  have tb: "tables movedPlan = defaultTables"
    by (simp add: movedPlan_def defaultPlan_def)
  have ne: "defaultTables \<noteq> []"
    by (simp add: defaultTables_def)
  have loaded: "loadServerVersion 1280 sampleUuid (snd (postVersion sampleUuid sampleNow ?body emptyStore)) csvDemoPlan =
      csvDemoPlan\<lparr>guests := guests movedPlan, tables := tables movedPlan,
        selectedTableId := Some ''t1'', stageSize := (800, 706), pan := (0, 0)\<rparr>"
    unfolding loadServerVersion_def getVersionRoute_def got
    by (simp add: applyVersion_def tb calculateStageSize_defaultTables)
       (simp add: defaultTables_def)
  have loc: "loadLocalVersion 1280 ''v_1'' (saveLocalVersion ''v_1'' sampleNow ''Plan A'' 0 movedPlan []) csvDemoPlan =
      csvDemoPlan\<lparr>guests := guests movedPlan, tables := tables movedPlan,
        selectedTableId := Some ''t1'', stageSize := (1200, 900), pan := (40, - 25)\<rparr>"
    by (simp add: loadLocalVersion_def saveLocalVersion_def applyVersion_def tb tr movedPlan_def)
       (simp add: defaultTables_def defaultPlan_def)
  have mv: "stageSize movedPlan = (1200, 900) \<and> pan movedPlan = (40, - 25)"
    by (simp add: movedPlan_def)
  show ?thesis
    unfolding loaded loc got using post mv by simp
qed

end
